theory Spec2Isabelle
  imports Main
begin

section \<open>Go values shared by the packages\<close>

text \<open>
  Go strings are byte strings; \<^typ>\<open>string\<close> is a list of bytes.  A Go pointer that may be
  \<open>nil\<close> is an \<^typ>\<open>'a option\<close>.
\<close>

definition byte :: "char \<Rightarrow> nat" where
  "byte c = of_char c"

definition HasPrefix :: "string \<Rightarrow> string \<Rightarrow> bool" where
  \<comment> \<open>\<open>strings.HasPrefix(s, prefix)\<close>\<close>
  "HasPrefix s p = (take (length p) s = p)"

definition HasSuffix :: "string \<Rightarrow> string \<Rightarrow> bool" where
  \<comment> \<open>\<open>strings.HasSuffix(s, suffix)\<close>\<close>
  "HasSuffix s p = (length p \<le> length s \<and> drop (length s - length p) s = p)"

definition Cut :: "string \<Rightarrow> char \<Rightarrow> string \<times> string" where
  \<comment> \<open>\<open>strings.Cut(s, sep)\<close> for a separator of one byte: the text before the first
      \<open>sep\<close> and the text after it (all of \<open>s\<close> and the empty string when there is none).\<close>
  "Cut s sep = (takeWhile (\<lambda>c. c \<noteq> sep) s, drop 1 (dropWhile (\<lambda>c. c \<noteq> sep) s))"

section \<open>The standard library's \<open>url.Parse\<close>\<close>

text \<open>
  \<open>Validate\<close> calls \<open>url.Parse\<close> of Go's \<open>net/url\<close> and looks only at whether it
  returns an error.  The functions below follow \<open>net/url\<close>: \<open>Parse\<close>, \<open>parse\<close>,
  \<open>getScheme\<close>, \<open>unescape\<close> (in the path and fragment modes, where only a malformed
  percent escape is an error) and \<open>stringContainsCTLByte\<close>.  Each returns \<open>True\<close> when the
  library function returns a non-nil error.  The check of the authority component
  (\<open>parseAuthority\<close>: user info, host, port, IPv6 literals) differs between Go releases and is
  a parameter, \<open>auth\<close>.
\<close>

definition ishex :: "char \<Rightarrow> bool" where
  "ishex c = ((byte (CHR ''0'') \<le> byte c \<and> byte c \<le> byte (CHR ''9'')) \<or>
              (byte (CHR ''a'') \<le> byte c \<and> byte c \<le> byte (CHR ''f'')) \<or>
              (byte (CHR ''A'') \<le> byte c \<and> byte c \<le> byte (CHR ''F'')))"

fun unescape_fails :: "string \<Rightarrow> bool" where
  "unescape_fails [] = False"
| "unescape_fails [c] = (c = CHR ''%'')"
| "unescape_fails [c, d] = (c = CHR ''%'' \<or> d = CHR ''%'')"
| "unescape_fails (c # h1 # h2 # s) =
     (if c = CHR ''%'' then (if ishex h1 \<and> ishex h2 then unescape_fails s else True)
      else unescape_fails (h1 # h2 # s))"

definition stringContainsCTLByte :: "string \<Rightarrow> bool" where
  "stringContainsCTLByte s = list_ex (\<lambda>b. byte b < 32 \<or> byte b = 127) s"

datatype scheme_result = MissingProtocolScheme | Scheme string string

fun getScheme_loop :: "string \<Rightarrow> nat \<Rightarrow> string \<Rightarrow> scheme_result" where
  "getScheme_loop rawURL i [] = Scheme [] rawURL"
| "getScheme_loop rawURL i (c # cs) =
     (if (byte (CHR ''a'') \<le> byte c \<and> byte c \<le> byte (CHR ''z'')) \<or>
         (byte (CHR ''A'') \<le> byte c \<and> byte c \<le> byte (CHR ''Z''))
      then getScheme_loop rawURL (Suc i) cs
      else if (byte (CHR ''0'') \<le> byte c \<and> byte c \<le> byte (CHR ''9'')) \<or>
              c = CHR ''+'' \<or> c = CHR ''-'' \<or> c = CHR ''.''
      then (if i = 0 then Scheme [] rawURL else getScheme_loop rawURL (Suc i) cs)
      else if c = CHR '':''
      then (if i = 0 then MissingProtocolScheme
            else Scheme (take i rawURL) (drop (Suc i) rawURL))
      else Scheme [] rawURL)"

definition getScheme :: "string \<Rightarrow> scheme_result" where
  "getScheme rawURL = getScheme_loop rawURL 0 rawURL"

definition parse_fails :: "(string \<Rightarrow> bool) \<Rightarrow> string \<Rightarrow> bool" where
  \<comment> \<open>\<open>parse(rawURL, viaRequest = false)\<close>\<close>
  "parse_fails auth rawURL =
     (if stringContainsCTLByte rawURL then True
      else if rawURL = ''*'' then False
      else case getScheme rawURL of
        MissingProtocolScheme \<Rightarrow> True
      | Scheme scheme rest0 \<Rightarrow>
          let rest = (if HasSuffix rest0 ''?'' \<and> count_list rest0 (CHR ''?'') = 1
                      then butlast rest0 else fst (Cut rest0 (CHR ''?'')))
          in if \<not> HasPrefix rest ''/'' \<and> scheme \<noteq> [] then False
             else if \<not> HasPrefix rest ''/'' \<and> CHR '':'' \<in> set (fst (Cut rest (CHR ''/''))) then True
             else if (scheme \<noteq> [] \<or> \<not> HasPrefix rest ''///'') \<and> HasPrefix rest ''//''
             then (let authority = takeWhile (\<lambda>c. c \<noteq> CHR ''/'') (drop 2 rest);
                       rest' = dropWhile (\<lambda>c. c \<noteq> CHR ''/'') (drop 2 rest)
                   in if auth authority then True else unescape_fails rest')
             else unescape_fails rest)"

definition url_Parse_fails :: "(string \<Rightarrow> bool) \<Rightarrow> string \<Rightarrow> bool" where
  \<comment> \<open>\<open>url.Parse(rawURL)\<close>: the fragment is cut off first and checked last.\<close>
  "url_Parse_fails auth rawURL =
     (let u = fst (Cut rawURL (CHR ''#'')); frag = snd (Cut rawURL (CHR ''#''))
      in if parse_fails auth u then True
         else if frag = [] then False
         else unescape_fails frag)"

section \<open>Errors\<close>

text \<open>
  A violation is a \<open>*field.Error\<close> of \<open>k8s.io/apimachinery\<close>: its type, the field path, the
  offending value and a detail text.
\<close>

datatype ErrorType = ErrorTypeRequired | ErrorTypeInvalid

datatype BadValue = StringValue string | IntValue int

record FieldError =
  ErrType :: ErrorType
  Field :: string
  BadValue :: BadValue
  Detail :: string

definition Required :: "string \<Rightarrow> string \<Rightarrow> FieldError" where
  \<comment> \<open>\<open>field.Required(field.NewPath(path), detail)\<close>\<close>
  "Required path detail =
     \<lparr>ErrType = ErrorTypeRequired, Field = path, BadValue = StringValue [], Detail = detail\<rparr>"

definition Invalid :: "string \<Rightarrow> BadValue \<Rightarrow> string \<Rightarrow> FieldError" where
  \<comment> \<open>\<open>field.Invalid(field.NewPath(path), value, detail)\<close>\<close>
  "Invalid path v detail =
     \<lparr>ErrType = ErrorTypeInvalid, Field = path, BadValue = v, Detail = detail\<rparr>"

text \<open>
  The message of a violation, \<open>(*field.Error).Error()\<close>, is the field path, \<open>": "\<close> and the
  body.  The body prints the offending value with the verbs \<open>%q\<close> and \<open>%v\<close> of Go's
  \<open>fmt\<close>; that printing is the parameter \<open>fmtv\<close>.
\<close>

definition ErrorBody :: "(BadValue \<Rightarrow> string) \<Rightarrow> FieldError \<Rightarrow> string" where
  "ErrorBody fmtv e =
     (case ErrType e of
        ErrorTypeRequired \<Rightarrow> ''Required value''
      | ErrorTypeInvalid \<Rightarrow> ''Invalid value: '' @ fmtv (BadValue e))
     @ (if Detail e \<noteq> [] then '': '' @ Detail e else [])"

definition FieldError_Error :: "(BadValue \<Rightarrow> string) \<Rightarrow> FieldError \<Rightarrow> string" where
  "FieldError_Error fmtv e = Field e @ '': '' @ ErrorBody fmtv e"

text \<open>
  A Go \<open>error\<close> that is not \<open>nil\<close>.  \<open>ErrExtensionNotFound\<close> is the package variable of the
  validator: \<open>errors.Is\<close> compares with it by identity, so it is a value of its own and no
  other \<open>errors.New\<close> equals it.  \<open>Errorf_w pre err post\<close> is
  \<open>fmt.Errorf\<close> with one verb \<open>%w\<close>: it wraps \<open>err\<close>, and its message is \<open>pre\<close>, the
  message of \<open>err\<close> and \<open>post\<close>.  \<open>errorString\<close> is an error made in this repository by
  \<open>errors.New\<close>, or by \<open>fmt.Errorf\<close> without \<open>%w\<close>.  \<open>Aggregate\<close> is the
  \<open>utilerrors.Aggregate\<close> of a list of violations.  \<open>LibraryError e\<close> is an error returned
  by a function outside the repository (the decoder, the cluster client, the managed-resource
  functions), \<open>e\<close> standing for that error.  Go errors are compared by identity and every
  \<open>errors.New\<close> and \<open>fmt.Errorf\<close> allocates, so an error a library returns is never one
  made here.
\<close>

type_synonym lib_error = string
  \<comment> \<open>an error value of a library, named by its text; the repository never looks inside
      one: it wraps it, returns it, or asks \<open>apierrors.IsNotFound\<close> about it\<close>

datatype GoError =
    ErrExtensionNotFound
  | errorString string
  | Errorf_w string GoError string
  | Aggregate "FieldError list"
  | LibraryError lib_error

type_synonym error = "GoError option"

fun Errors :: "error \<Rightarrow> FieldError list" where
  \<comment> \<open>the violations an error carries\<close>
  "Errors (Some (Aggregate errs)) = errs"
| "Errors _ = []"

text \<open>
  \<open>field.ErrorList.ToAggregate\<close>: \<open>nil\<close> for the empty list; otherwise the violations in
  order, a violation whose message was already seen being dropped.
\<close>

fun ToAggregate_loop ::
  "(BadValue \<Rightarrow> string) \<Rightarrow> FieldError list \<Rightarrow> string set \<Rightarrow> FieldError list \<Rightarrow> FieldError list"
where
  "ToAggregate_loop fmtv [] errorMsgs errs = errs"
| "ToAggregate_loop fmtv (err # list) errorMsgs errs =
     (let msg = FieldError_Error fmtv err
      in if msg \<in> errorMsgs then ToAggregate_loop fmtv list errorMsgs errs
         else ToAggregate_loop fmtv list (insert msg errorMsgs) (errs @ [err]))"

definition NewAggregate :: "FieldError list \<Rightarrow> error" where
  "NewAggregate errlist = (if errlist = [] then None else Some (Aggregate errlist))"

definition ToAggregate :: "(BadValue \<Rightarrow> string) \<Rightarrow> FieldError list \<Rightarrow> error" where
  "ToAggregate fmtv list =
     (if length list = 0 then None else NewAggregate (ToAggregate_loop fmtv list {} []))"

section \<open>The configuration: package \<open>config\<close>\<close>

text \<open>
  The types \<open>Validate\<close> reads.  \<open>RetryOnFailureConfig\<close>, which no function below reads, is
  left out.  Go's \<open>int\<close> is modelled by \<^typ>\<open>int\<close>: the code only compares it with zero.
\<close>

record ResourceReferenceDetails =
  Name :: string
  DataKey :: string

record ResourceReference =
  ResourceRef :: ResourceReferenceDetails

record TLSConfig =
  InsecureSkipVerify :: "bool option"
  CA :: "ResourceReference option"
  Cert :: "ResourceReference option"
  Key :: "ResourceReference option"

record DebugExporterConfig =
  Debug_Enabled :: "bool option"
  Verbosity :: string

record OTLPHTTPExporterConfig =
  Enabled :: "bool option"
  Endpoint :: string
  TracesEndpoint :: string
  MetricsEndpoint :: string
  LogsEndpoint :: string
  ProfilesEndpoint :: string
  TLS :: TLSConfig
  Token :: "ResourceReference option"
  Timeout :: int
  ReadBufferSize :: int
  WriteBufferSize :: int
  Encoding :: string
  Compression :: string

record CollectorExportersConfig =
  OTLPHTTPExporter :: OTLPHTTPExporterConfig
  DebugExporter :: DebugExporterConfig

record CollectorConfigSpec =
  Exporters :: CollectorExportersConfig

record CollectorConfig =
  Spec :: CollectorConfigSpec

definition Debug_IsEnabled :: "DebugExporterConfig \<Rightarrow> bool" where
  \<comment> \<open>Modelled from the spec: the method \<open>IsEnabled\<close> of \<open>DebugExporterConfig\<close> is declared in
      a file of package \<open>config\<close> that is not among the sources; the spec speaks of the
      exporter's \<open>enabled\<close> flag being true.\<close>
  "Debug_IsEnabled c = (Debug_Enabled c = Some True)"

definition OTLPHTTP_IsEnabled :: "OTLPHTTPExporterConfig \<Rightarrow> bool" where
  \<comment> \<open>Modelled from the spec: the method \<open>IsEnabled\<close> of \<open>OTLPHTTPExporterConfig\<close>, as for the
      debug exporter.\<close>
  "OTLPHTTP_IsEnabled c = (Enabled c = Some True)"

section \<open>Package \<open>validation\<close>\<close>

text \<open>
  The two functions of other libraries that \<open>Validate\<close> depends on and that are parameters
  here: the authority check of \<open>url.Parse\<close> and the printing of a value in a message.
\<close>

record library =
  parseAuthority_fails :: "string \<Rightarrow> bool"
  format_value :: "BadValue \<Rightarrow> string"

definition cmp_Or :: "bool list \<Rightarrow> bool" where
  \<comment> \<open>\<open>cmp.Or\<close>: the first argument that is not the zero value, or the zero value.\<close>
  "cmp_Or vals = (case filter (\<lambda>v. v \<noteq> False) vals of [] \<Rightarrow> False | v # _ \<Rightarrow> v)"

definition urlFields :: "CollectorConfig \<Rightarrow> (string \<times> string) list" where
  "urlFields cfg =
     [(''spec.exporters.otlphttp.endpoint'', Endpoint (OTLPHTTPExporter (Exporters (Spec cfg)))),
      (''spec.exporters.otlphttp.traces_endpoint'', TracesEndpoint (OTLPHTTPExporter (Exporters (Spec cfg)))),
      (''spec.exporters.otlphttp.metrics_endpoint'', MetricsEndpoint (OTLPHTTPExporter (Exporters (Spec cfg)))),
      (''spec.exporters.otlphttp.logs_endpoint'', LogsEndpoint (OTLPHTTPExporter (Exporters (Spec cfg)))),
      (''spec.exporters.otlphttp.profiles_endpoint'', ProfilesEndpoint (OTLPHTTPExporter (Exporters (Spec cfg))))]"

fun urlFields_loop :: "library \<Rightarrow> (string \<times> string) list \<Rightarrow> FieldError list \<Rightarrow> FieldError list" where
  "urlFields_loop lib [] allErrs = allErrs"
| "urlFields_loop lib ((path, v) # fs) allErrs =
     (if v \<noteq> [] then
        (if url_Parse_fails (parseAuthority_fails lib) v
         then urlFields_loop lib fs (allErrs @ [Invalid path (StringValue v) ''invalid URL specified''])
         else urlFields_loop lib fs allErrs)
      else urlFields_loop lib fs allErrs)"

definition nonNegativeFields :: "CollectorConfig \<Rightarrow> (string \<times> int) list" where
  "nonNegativeFields cfg =
     [(''spec.exporters.otlphttp.read_buffer_size'', ReadBufferSize (OTLPHTTPExporter (Exporters (Spec cfg)))),
      (''spec.exporters.otlphttp.write_buffer_size'', WriteBufferSize (OTLPHTTPExporter (Exporters (Spec cfg))))]"

fun nonNegativeFields_loop :: "(string \<times> int) list \<Rightarrow> FieldError list \<Rightarrow> FieldError list" where
  "nonNegativeFields_loop [] allErrs = allErrs"
| "nonNegativeFields_loop ((path, v) # fs) allErrs =
     (if v < 0
      then nonNegativeFields_loop fs (allErrs @ [Invalid path (IntValue v) ''value cannot be negative''])
      else nonNegativeFields_loop fs allErrs)"

definition resourceRefs :: "CollectorConfig \<Rightarrow> (string \<times> ResourceReference option) list" where
  "resourceRefs cfg =
     [(''spec.exporters.otlphttp.token'', Token (OTLPHTTPExporter (Exporters (Spec cfg)))),
      (''spec.exporters.otlphttp.tls.ca'', CA (TLS (OTLPHTTPExporter (Exporters (Spec cfg))))),
      (''spec.exporters.otlphttp.tls.cert'', Cert (TLS (OTLPHTTPExporter (Exporters (Spec cfg))))),
      (''spec.exporters.otlphttp.tls.key'', Key (TLS (OTLPHTTPExporter (Exporters (Spec cfg)))))]"

fun resourceRefs_loop ::
  "(string \<times> ResourceReference option) list \<Rightarrow> FieldError list \<Rightarrow> FieldError list" where
  "resourceRefs_loop [] allErrs = allErrs"
| "resourceRefs_loop ((path, None) # fs) allErrs = resourceRefs_loop fs allErrs"
| "resourceRefs_loop ((path, Some ref) # fs) allErrs =
     (if Name (ResourceRef ref) = [] \<or> DataKey (ResourceRef ref) = []
      then resourceRefs_loop fs (allErrs @ [Invalid path (StringValue path) ''name or dataKey is empty''])
      else resourceRefs_loop fs allErrs)"

definition exportersEnabled_check :: "CollectorConfig \<Rightarrow> FieldError list \<Rightarrow> FieldError list" where
  \<comment> \<open>the first rule of \<open>Validate\<close>: at least one exporter is enabled\<close>
  "exportersEnabled_check cfg allErrs =
     (let anyExporterEnabled =
            [Debug_IsEnabled (DebugExporter (Exporters (Spec cfg))),
             OTLPHTTP_IsEnabled (OTLPHTTPExporter (Exporters (Spec cfg)))]
      in if \<not> cmp_Or anyExporterEnabled
         then allErrs @ [Required ''spec.exporters'' ''no exporter enabled'']
         else allErrs)"

definition allErrs_of :: "library \<Rightarrow> CollectorConfig \<Rightarrow> FieldError list" where
  \<comment> \<open>the list \<open>allErrs\<close> of \<open>Validate\<close> after its four rules have run in order\<close>
  "allErrs_of lib cfg =
     resourceRefs_loop (resourceRefs cfg)
       (nonNegativeFields_loop (nonNegativeFields cfg)
          (urlFields_loop lib (urlFields cfg)
             (exportersEnabled_check cfg [])))"

definition Validate :: "library \<Rightarrow> CollectorConfig \<Rightarrow> error" where
  "Validate lib cfg = ToAggregate (format_value lib) (allErrs_of lib cfg)"

section \<open>Package \<open>validator\<close>: the admission webhook\<close>

definition ExtensionType :: string where
  \<comment> \<open>\<open>actuator.ExtensionType\<close>\<close>
  "ExtensionType = ''otelcol''"

record RawExtension =
  Raw :: string

text \<open>A \<open>core.Extension\<close> of a shoot's spec, and the fields of \<open>core.Shoot\<close> the validator reads.\<close>

record Extension =
  Type :: string
  ProviderConfig :: "RawExtension option"
  Disabled :: "bool option"

record ShootSpec =
  Extensions :: "Extension list"

record Shoot =
  DeletionTimestamp :: "nat option"
  Shoot_Spec :: ShootSpec

text \<open>
  A \<open>client.Object\<close> handed to the webhook: a \<open>*core.Shoot\<close> (the pointer may be \<open>nil\<close>),
  an object of another type (with the text \<open>%T\<close> prints for it), or the \<open>nil\<close> interface.
\<close>

datatype Object = ShootObject "Shoot option" | OtherObject string | NilObject

text \<open>What a call does: it returns a value, or it panics.\<close>

datatype 'a outcome = Return 'a | Panic

text \<open>
  \<open>runtime.DecodeInto(decoder, raw, &cfg)\<close> either fails or fills \<open>cfg\<close>: a decoder is a
  function from the payload to the library's error or a configuration.
\<close>

type_synonym Decoder = "string \<Rightarrow> lib_error + CollectorConfig"

record shootValidator =
  decoder :: Decoder
  extensionType :: string

fun errors_Is_ErrExtensionNotFound :: "GoError \<Rightarrow> bool" where
  \<comment> \<open>\<open>errors.Is(err, ErrExtensionNotFound)\<close> for \<open>err\<close> not \<open>nil\<close>: \<open>err\<close> is the variable
      itself or wraps it.  A violation never is an \<open>ErrExtensionNotFound\<close>, so neither is an
      aggregate of violations; nor is an error of a library, which cannot know the variable.\<close>
  "errors_Is_ErrExtensionNotFound ErrExtensionNotFound = True"
| "errors_Is_ErrExtensionNotFound (Errorf_w pre err post) = errors_Is_ErrExtensionNotFound err"
| "errors_Is_ErrExtensionNotFound (errorString s) = False"
| "errors_Is_ErrExtensionNotFound (Aggregate errs) = False"
| "errors_Is_ErrExtensionNotFound (LibraryError e) = False"

definition IgnoreExtensionNotFound :: "error \<Rightarrow> error" where
  "IgnoreExtensionNotFound err =
     (case err of
        None \<Rightarrow> err
      | Some e \<Rightarrow> if errors_Is_ErrExtensionNotFound e then None else err)"

definition newShootValidator :: "Decoder option \<Rightarrow> GoError + shootValidator" where
  "newShootValidator d =
     (case d of
        None \<Rightarrow> Inl (errorString (''invalid decoder specified for shoot validator '' @ ExtensionType))
      | Some dec \<Rightarrow> Inr \<lparr>decoder = dec, extensionType = ExtensionType\<rparr>)"

fun IndexFunc_from :: "nat \<Rightarrow> 'a list \<Rightarrow> ('a \<Rightarrow> bool) \<Rightarrow> int" where
  "IndexFunc_from i [] f = - 1"
| "IndexFunc_from i (x # xs) f = (if f x then int i else IndexFunc_from (Suc i) xs f)"

definition IndexFunc :: "'a list \<Rightarrow> ('a \<Rightarrow> bool) \<Rightarrow> int" where
  \<comment> \<open>\<open>slices.IndexFunc\<close>: the first index whose element satisfies \<open>f\<close>, or \<open>-1\<close>\<close>
  "IndexFunc s f = IndexFunc_from 0 s f"

definition getExtension :: "shootValidator \<Rightarrow> Shoot option \<Rightarrow> GoError + Extension" where
  "getExtension v obj =
     (case obj of
        None \<Rightarrow> Inl (errorString ''invalid shoot resource provided'')
      | Some shoot \<Rightarrow>
          let idx = IndexFunc (Extensions (Shoot_Spec shoot)) (\<lambda>ext. Type ext = extensionType v)
          in if idx = - 1
             then Inl (Errorf_w [] ErrExtensionNotFound ('': '' @ extensionType v))
             else Inr (Extensions (Shoot_Spec shoot) ! nat idx))"

definition validateExtension ::
  "library \<Rightarrow> shootValidator \<Rightarrow> Shoot option \<Rightarrow> Shoot option \<Rightarrow> error" where
  "validateExtension lib v newObj oldObj =
     (case getExtension v newObj of
        Inl err \<Rightarrow> IgnoreExtensionNotFound (Some err)
      | Inr ext \<Rightarrow>
          if Disabled ext \<noteq> None \<and> the (Disabled ext) then None
          else case ProviderConfig ext of
            None \<Rightarrow> Some (errorString (''no provider config specified for '' @ extensionType v))
          | Some pc \<Rightarrow>
              (case decoder v (Raw pc) of
                 Inl err \<Rightarrow>
                   Some (Errorf_w (''invalid provider spec configuration for '' @ extensionType v @ '': '')
                           (LibraryError err) [])
               | Inr cfg \<Rightarrow>
                   (case Validate lib cfg of
                      Some err \<Rightarrow>
                        Some (Errorf_w (''invalid extension configuration for '' @ extensionType v @ '': '')
                                err [])
                    | None \<Rightarrow> None)))"

definition shootValidator_Validate ::
  "library \<Rightarrow> shootValidator \<Rightarrow> Object \<Rightarrow> Object \<Rightarrow> error outcome" where
  \<comment> \<open>the method \<open>Validate\<close> of \<open>shootValidator\<close>; reading \<open>DeletionTimestamp\<close> through a
      \<open>nil\<close> pointer panics\<close>
  "shootValidator_Validate lib v newObj oldObj =
     (case newObj of
        ShootObject newShoot \<Rightarrow>
          let oldShoot = (case oldObj of ShootObject p \<Rightarrow> p | _ \<Rightarrow> None)
          in (case newShoot of
                None \<Rightarrow> Panic
              | Some shoot \<Rightarrow>
                  if DeletionTimestamp shoot \<noteq> None then Return None
                  else Return (validateExtension lib v newShoot oldShoot))
      | OtherObject t \<Rightarrow> Return (Some (errorString (''invalid object type: '' @ t)))
      | NilObject \<Rightarrow> Return (Some (errorString ''invalid object type: <nil>'')))"

section \<open>Package \<open>actuator\<close>\<close>

definition managedResourceName :: string where
  "managedResourceName = ''external-otelcol''"

definition OpenTelemetryCollector :: string where
  \<comment> \<open>the feature gate \<open>gardenerfeatures.OpenTelemetryCollector\<close>\<close>
  "OpenTelemetryCollector = ''OpenTelemetryCollector''"

text \<open>
  The \<open>extensionsv1alpha1.Extension\<close> resource a trigger is called with: its name, its
  namespace and \<open>Spec.ProviderConfig\<close>.
\<close>

record ExtensionResource =
  ex_Name :: string
  ex_Namespace :: string
  ex_ProviderConfig :: "RawExtension option"

text \<open>
  The objects \<open>Reconcile\<close> bundles.  Each is built from the namespace and constants of the
  source; only its kind, name and namespace are kept here.
\<close>

datatype ManagedObject =
    ServiceAccount string string
  | Role string string
  | RoleBinding string string
  | TargetAllocator string string

definition getTargetAllocatorServiceAccount :: "string \<Rightarrow> ManagedObject" where
  "getTargetAllocatorServiceAccount namespace = ServiceAccount ''external-otelcol-targetallocator'' namespace"

definition getTargetAllocatorRole :: "string \<Rightarrow> ManagedObject" where
  "getTargetAllocatorRole namespace = Role ''external-otelcol-targetallocator'' namespace"

definition getTargetAllocatorRoleBinding :: "string \<Rightarrow> ManagedObject" where
  "getTargetAllocatorRoleBinding namespace = RoleBinding ''external-otelcol-targetallocator'' namespace"

definition getTargetAllocator :: "string \<Rightarrow> ManagedObject" where
  "getTargetAllocator namespace = TargetAllocator ''external-otelcol'' namespace"

type_synonym data = "(string \<times> string) list"

text \<open>
  The functions of Gardener and of controller-runtime that the actuator calls, as they behave
  on the seed cluster reached through the actuator's client; \<open>'s\<close> is the state of that
  cluster and \<open>'c\<close> a \<open>Cluster\<close> object read from it; their errors are library
  errors.  \<open>GetCluster\<close> only reads;
  \<open>CreateForSeed\<close> and \<open>DeleteForSeed\<close> return an error or \<open>nil\<close> and the new state.
  \<open>HibernationIsEnabled c\<close> stands for \<open>v1beta1helper.HibernationIsEnabled(c.Shoot)\<close>, and
  \<open>IsNotFound\<close> for \<open>apierrors.IsNotFound\<close> on an error that is not \<open>nil\<close>.
\<close>

record ('s, 'c) gardener =
  GetCluster :: "string \<Rightarrow> 's \<Rightarrow> lib_error + 'c"
  HibernationIsEnabled :: "'c \<Rightarrow> bool"
  AddAllAndSerialize :: "ManagedObject list \<Rightarrow> lib_error + data"
  CreateForSeed :: "string \<Rightarrow> string \<Rightarrow> bool \<Rightarrow> data \<Rightarrow> 's \<Rightarrow> lib_error option \<times> 's"
  DeleteForSeed :: "string \<Rightarrow> string \<Rightarrow> 's \<Rightarrow> lib_error option \<times> 's"
  IsNotFound :: "lib_error \<Rightarrow> bool"

record Actuator =
  act_decoder :: Decoder
  gardenerVersion :: string
  gardenletFeatureGates :: "string \<rightharpoonup> bool"

text \<open>
  Everything a trigger can change: the counter \<open>metrics.ActuatorOperationTotal\<close> by its
  labels (cluster, operation), the lines written to the logger, the calls made to the
  managed-resource functions, and the seed cluster.
\<close>

datatype call =
    CreateForSeed_call string string bool data
  | DeleteForSeed_call string string

record 's world =
  counters :: "string \<times> string \<Rightarrow> nat"
  logs :: "(string \<times> (string \<times> string) list) list"
  calls :: "call list"
  seed :: 's

definition Inc :: "string \<Rightarrow> string \<Rightarrow> 's world \<Rightarrow> 's world" where
  \<comment> \<open>\<open>metrics.ActuatorOperationTotal.WithLabelValues(cluster, operation).Inc()\<close>\<close>
  "Inc cluster operation w =
     w\<lparr>counters := (counters w)((cluster, operation) := counters w (cluster, operation) + 1)\<rparr>"

definition Info :: "string \<Rightarrow> (string \<times> string) list \<Rightarrow> 's world \<Rightarrow> 's world" where
  \<comment> \<open>\<open>logger.Info(msg, keysAndValues...)\<close>\<close>
  "Info msg keysAndValues w = w\<lparr>logs := logs w @ [(msg, keysAndValues)]\<rparr>"

definition IgnoreNotFound :: "('s, 'c) gardener \<Rightarrow> lib_error option \<Rightarrow> error" where
  \<comment> \<open>\<open>client.IgnoreNotFound\<close>: \<open>nil\<close> for a not-found error, otherwise the error as it is\<close>
  "IgnoreNotFound g err =
     (case err of None \<Rightarrow> None | Some e \<Rightarrow> if IsNotFound g e then None else Some (LibraryError e))"

definition Delete ::
  "('s, 'c) gardener \<Rightarrow> Actuator \<Rightarrow> ExtensionResource \<Rightarrow> 's world \<Rightarrow> error \<times> 's world" where
  \<comment> \<open>the deferred increment runs last, after the result is known\<close>
  "Delete g a ex w =
     (let w1 = Info ''deleting resources managed by extension'' [] w;
          (err, s') = DeleteForSeed g (ex_Namespace ex) managedResourceName (seed w1);
          w2 = w1\<lparr>calls := calls w1 @ [DeleteForSeed_call (ex_Namespace ex) managedResourceName],
                  seed := s'\<rparr>
      in (IgnoreNotFound g err, Inc (ex_Namespace ex) ''delete'' w2))"

definition Reconcile_body ::
  "library \<Rightarrow> ('s, 'c) gardener \<Rightarrow> Actuator \<Rightarrow> ExtensionResource \<Rightarrow> string \<Rightarrow> 's world
     \<Rightarrow> error \<times> 's world" where
  \<comment> \<open>\<open>Reconcile\<close> from the line after its \<open>defer\<close> to its end\<close>
  "Reconcile_body lib g a ex clusterName w =
     (let w1 = Info ''reconciling extension'' [(''name'', ex_Name ex), (''cluster'', clusterName)] w
      in case GetCluster g clusterName (seed w1) of
           Inl err \<Rightarrow> (Some (Errorf_w ''failed to get cluster: '' (LibraryError err) []), w1)
         | Inr cluster \<Rightarrow>
             if HibernationIsEnabled g cluster then (None, w1)
             else case ex_ProviderConfig ex of
               None \<Rightarrow> (Some (errorString ''no provider config specified''), w1)
             | Some pc \<Rightarrow>
                 (case act_decoder a (Raw pc) of
                    Inl err \<Rightarrow>
                      (Some (Errorf_w ''invalid provider spec configuration: '' (LibraryError err) []), w1)
                  | Inr cfg \<Rightarrow>
                      (case Validate lib cfg of
                         Some err \<Rightarrow> (Some err, w1)
                       | None \<Rightarrow>
                           (case AddAllAndSerialize g
                                   [getTargetAllocatorServiceAccount (ex_Namespace ex),
                                    getTargetAllocatorRole (ex_Namespace ex),
                                    getTargetAllocatorRoleBinding (ex_Namespace ex),
                                    getTargetAllocator (ex_Namespace ex)] of
                              Inl err \<Rightarrow> (Some (LibraryError err), w1)
                            | Inr d \<Rightarrow>
                                (let (err, s') = CreateForSeed g (ex_Namespace ex) managedResourceName
                                                   False d (seed w1)
                                 in (map_option LibraryError err,
                                     w1\<lparr>calls := calls w1 @
                                           [CreateForSeed_call (ex_Namespace ex) managedResourceName False d],
                                         seed := s'\<rparr>))))))"

definition Reconcile ::
  "library \<Rightarrow> ('s, 'c) gardener \<Rightarrow> Actuator \<Rightarrow> ExtensionResource \<Rightarrow> 's world
     \<Rightarrow> error \<times> 's world" where
  "Reconcile lib g a ex w =
     (let (otelcolFeature, ok) =
            (case gardenletFeatureGates a OpenTelemetryCollector of
               None \<Rightarrow> (False, False)
             | Some b \<Rightarrow> (b, True))
      in if \<not> ok \<or> \<not> otelcolFeature
         then Delete g a ex
                (Info ''gardenlet feature gate OpenTelemetryCollector is either missing or disabled'' [] w)
         else (let clusterName = ex_Namespace ex;
                   (r, w') = Reconcile_body lib g a ex clusterName w
               in (r, Inc clusterName ''reconcile'' w')))"

definition ForceDelete ::
  "('s, 'c) gardener \<Rightarrow> Actuator \<Rightarrow> ExtensionResource \<Rightarrow> 's world \<Rightarrow> error \<times> 's world" where
  "ForceDelete g a ex w =
     (let w1 = Info ''shoot has been force-deleted, deleting resources managed by extension'' [] w;
          (r, w2) = Delete g a ex w1
      in (r, Inc (ex_Namespace ex) ''force_delete'' w2))"

definition Restore ::
  "library \<Rightarrow> ('s, 'c) gardener \<Rightarrow> Actuator \<Rightarrow> ExtensionResource \<Rightarrow> 's world
     \<Rightarrow> error \<times> 's world" where
  "Restore lib g a ex w =
     (let (r, w1) = Reconcile lib g a ex w in (r, Inc (ex_Namespace ex) ''restore'' w1))"

definition Migrate ::
  "library \<Rightarrow> ('s, 'c) gardener \<Rightarrow> Actuator \<Rightarrow> ExtensionResource \<Rightarrow> 's world
     \<Rightarrow> error \<times> 's world" where
  "Migrate lib g a ex w =
     (let (r, w1) = Reconcile lib g a ex w in (r, Inc (ex_Namespace ex) ''migrate'' w1))"

section \<open>Notions used in the statements, and sample inputs\<close>

definition incomplete :: "ResourceReference option \<Rightarrow> bool" where
  \<comment> \<open>a reference that is present and lacks its name or its data key\<close>
  "incomplete r =
     (case r of None \<Rightarrow> False
      | Some ref \<Rightarrow> Name (ResourceRef ref) = [] \<or> DataKey (ResourceRef ref) = [])"

definition lib0 :: library where
  "lib0 = \<lparr>parseAuthority_fails = (\<lambda>authority. False),
           format_value = (\<lambda>v. case v of StringValue s \<Rightarrow> s | IntValue i \<Rightarrow> [])\<rparr>"

definition zero_CollectorConfig :: CollectorConfig where
  \<comment> \<open>the zero value of \<open>config.CollectorConfig\<close>: an empty exporters block\<close>
  "zero_CollectorConfig =
     \<lparr>Spec = \<lparr>Exporters =
        \<lparr>OTLPHTTPExporter =
           \<lparr>Enabled = None, Endpoint = [], TracesEndpoint = [], MetricsEndpoint = [],
            LogsEndpoint = [], ProfilesEndpoint = [],
            TLS = \<lparr>InsecureSkipVerify = None, CA = None, Cert = None, Key = None\<rparr>,
            Token = None, Timeout = 0, ReadBufferSize = 0, WriteBufferSize = 0,
            Encoding = [], Compression = []\<rparr>,
         DebugExporter = \<lparr>Debug_Enabled = None, Verbosity = []\<rparr>\<rparr>\<rparr>\<rparr>"

definition otlphttp_with :: "bool option \<Rightarrow> string \<Rightarrow> int \<Rightarrow> CollectorConfig" where
  \<comment> \<open>the OTLP HTTP exporter with the given \<open>enabled\<close> flag, base endpoint and read buffer
      size, every other field zero\<close>
  "otlphttp_with enabled endpoint readBufferSize =
     \<lparr>Spec = \<lparr>Exporters =
        \<lparr>OTLPHTTPExporter =
           \<lparr>Enabled = enabled, Endpoint = endpoint, TracesEndpoint = [], MetricsEndpoint = [],
            LogsEndpoint = [], ProfilesEndpoint = [],
            TLS = \<lparr>InsecureSkipVerify = None, CA = None, Cert = None, Key = None\<rparr>,
            Token = None, Timeout = 0, ReadBufferSize = readBufferSize, WriteBufferSize = 0,
            Encoding = [], Compression = []\<rparr>,
         DebugExporter = \<lparr>Debug_Enabled = None, Verbosity = []\<rparr>\<rparr>\<rparr>\<rparr>"

definition all_defects :: CollectorConfig where
  \<comment> \<open>no exporter enabled, five endpoints that do not parse, two negative buffer sizes and
      four incomplete references\<close>
  "all_defects =
     \<lparr>Spec = \<lparr>Exporters =
        \<lparr>OTLPHTTPExporter =
           \<lparr>Enabled = Some False, Endpoint = ''127.0.0.1:4318'', TracesEndpoint = ''%zz'',
            MetricsEndpoint = '':bad'', LogsEndpoint = ''/logs%2'',
            ProfilesEndpoint = ''https://example.com/%g1'',
            TLS = \<lparr>InsecureSkipVerify = None,
                    CA = Some \<lparr>ResourceRef = \<lparr>Name = [], DataKey = ''ca.crt''\<rparr>\<rparr>,
                    Cert = Some \<lparr>ResourceRef = \<lparr>Name = ''tls'', DataKey = []\<rparr>\<rparr>,
                    Key = Some \<lparr>ResourceRef = \<lparr>Name = [], DataKey = []\<rparr>\<rparr>\<rparr>,
            Token = Some \<lparr>ResourceRef = \<lparr>Name = [], DataKey = ''token''\<rparr>\<rparr>,
            Timeout = 0, ReadBufferSize = - 1, WriteBufferSize = - 4096,
            Encoding = [], Compression = []\<rparr>,
         DebugExporter = \<lparr>Debug_Enabled = None, Verbosity = []\<rparr>\<rparr>\<rparr>\<rparr>"

definition dec0 :: Decoder where
  \<comment> \<open>a decoder that knows one payload\<close>
  "dec0 raw =
     (if raw = ''{otlphttp}'' then Inr (otlphttp_with (Some True) ''https://example.com:4318'' 0)
      else Inl ''cannot decode'')"

definition v0 :: shootValidator where
  "v0 = \<lparr>decoder = dec0, extensionType = ExtensionType\<rparr>"

definition shoot_with :: "Extension list \<Rightarrow> Shoot" where
  "shoot_with exts = \<lparr>DeletionTimestamp = None, Shoot_Spec = \<lparr>Extensions = exts\<rparr>\<rparr>"

definition a_on :: Actuator where
  "a_on = \<lparr>act_decoder = dec0, gardenerVersion = ''v1.130.0'',
           gardenletFeatureGates = [OpenTelemetryCollector \<mapsto> True]\<rparr>"

definition a_off :: Actuator where
  "a_off = \<lparr>act_decoder = dec0, gardenerVersion = ''v1.130.0'',
            gardenletFeatureGates = Map.empty\<rparr>"

text \<open>
  A seed cluster whose state is the list of its managed resources and whose \<open>Cluster\<close>
  object says whether the shoot is hibernated.
\<close>

definition g0 :: "bool \<Rightarrow> lib_error option \<Rightarrow> ((string \<times> string) list, bool) gardener" where
  "g0 hibernated createResult =
     \<lparr>GetCluster = (\<lambda>name s. Inr hibernated),
      HibernationIsEnabled = (\<lambda>c. c),
      AddAllAndSerialize = (\<lambda>objs. Inr []),
      CreateForSeed = (\<lambda>ns name keep d s.
         (createResult, if createResult = None then (ns, name) # s else s)),
      DeleteForSeed = (\<lambda>ns name s. (None, removeAll (ns, name) s)),
      IsNotFound = (\<lambda>e. False)\<rparr>"

definition ex0 :: "RawExtension option \<Rightarrow> ExtensionResource" where
  "ex0 pc = \<lparr>ex_Name = ''otelcol'', ex_Namespace = ''shoot--local--local'', ex_ProviderConfig = pc\<rparr>"

definition w0 :: "(string \<times> string) list world" where
  "w0 = \<lparr>counters = (\<lambda>k. 0), logs = [], calls = [], seed = []\<rparr>"

section \<open>The validation rules accumulate\<close>

lemma urlFields_loop_eq:
  "urlFields_loop lib fs allErrs =
     allErrs @ map (\<lambda>f. Invalid (fst f) (StringValue (snd f)) ''invalid URL specified'')
                 (filter (\<lambda>f. snd f \<noteq> [] \<and> url_Parse_fails (parseAuthority_fails lib) (snd f)) fs)"
  by (induction lib fs allErrs rule: urlFields_loop.induct) simp_all

lemma nonNegativeFields_loop_eq:
  "nonNegativeFields_loop fs allErrs =
     allErrs @ map (\<lambda>f. Invalid (fst f) (IntValue (snd f)) ''value cannot be negative'')
                 (filter (\<lambda>f. snd f < 0) fs)"
  by (induction fs allErrs rule: nonNegativeFields_loop.induct) simp_all

lemma resourceRefs_loop_eq:
  "resourceRefs_loop fs allErrs =
     allErrs @ map (\<lambda>f. Invalid (fst f) (StringValue (fst f)) ''name or dataKey is empty'')
                 (filter (\<lambda>f. incomplete (snd f)) fs)"
  by (induction fs allErrs rule: resourceRefs_loop.induct) (simp_all add: incomplete_def)

lemma ToAggregate_loop_distinct:
  "distinct (map (FieldError_Error fmtv) list) \<Longrightarrow>
   set (map (FieldError_Error fmtv) list) \<inter> errorMsgs = {} \<Longrightarrow>
   ToAggregate_loop fmtv list errorMsgs errs = errs @ list"
proof (induction list arbitrary: errorMsgs errs)
  case Nil
  then show ?case by simp
next
  case (Cons e list)
  have notin: "FieldError_Error fmtv e \<notin> errorMsgs"
    using Cons.prems(2) by auto
  have d: "distinct (map (FieldError_Error fmtv) list)"
    using Cons.prems(1) by simp
  have disj: "set (map (FieldError_Error fmtv) list) \<inter> insert (FieldError_Error fmtv e) errorMsgs = {}"
    using Cons.prems by auto
  show ?case
    using notin Cons.IH [OF d disj] by (simp add: Let_def)
qed

lemma colon_free_prefix:
  assumes "CHR '':'' \<notin> set f"
  shows "takeWhile (\<lambda>c. c \<noteq> CHR '':'') (f @ '': '' @ b) = f"
  using assms by (induction f) auto

lemma Error_inj_on_Field:
  assumes "CHR '':'' \<notin> set (Field e1)" and "CHR '':'' \<notin> set (Field e2)"
    and "FieldError_Error fmtv e1 = FieldError_Error fmtv e2"
  shows "Field e1 = Field e2"
proof -
  have "takeWhile (\<lambda>c. c \<noteq> CHR '':'') (FieldError_Error fmtv e1) = Field e1"
    unfolding FieldError_Error_def using assms(1) by (rule colon_free_prefix)
  moreover have "takeWhile (\<lambda>c. c \<noteq> CHR '':'') (FieldError_Error fmtv e2) = Field e2"
    unfolding FieldError_Error_def using assms(2) by (rule colon_free_prefix)
  ultimately show ?thesis using assms(3) by simp
qed

lemma distinct_messages:
  assumes "distinct (map Field list)" and "\<forall>e \<in> set list. CHR '':'' \<notin> set (Field e)"
  shows "distinct (map (FieldError_Error fmtv) list)"
  using assms
proof (induction list)
  case Nil
  then show ?case by simp
next
  case (Cons e list)
  have "FieldError_Error fmtv e \<notin> FieldError_Error fmtv ` set list"
  proof
    assume "FieldError_Error fmtv e \<in> FieldError_Error fmtv ` set list"
    then obtain e' where e': "e' \<in> set list" "FieldError_Error fmtv e = FieldError_Error fmtv e'"
      by auto
    have "Field e = Field e'"
      using Error_inj_on_Field [OF _ _ e'(2)] Cons.prems(2) e'(1) by simp
    then show False using Cons.prems(1) e'(1) by auto
  qed
  then show ?case using Cons by simp
qed


lemma allErrs_of_eq:
  "allErrs_of lib cfg =
     exportersEnabled_check cfg [] @
     map (\<lambda>f. Invalid (fst f) (StringValue (snd f)) ''invalid URL specified'')
       (filter (\<lambda>f. snd f \<noteq> [] \<and> url_Parse_fails (parseAuthority_fails lib) (snd f)) (urlFields cfg)) @
     map (\<lambda>f. Invalid (fst f) (IntValue (snd f)) ''value cannot be negative'')
       (filter (\<lambda>f. snd f < 0) (nonNegativeFields cfg)) @
     map (\<lambda>f. Invalid (fst f) (StringValue (fst f)) ''name or dataKey is empty'')
       (filter (\<lambda>f. incomplete (snd f)) (resourceRefs cfg))"
  unfolding allErrs_of_def
  by (simp add: urlFields_loop_eq nonNegativeFields_loop_eq resourceRefs_loop_eq)

lemma Field_allErrs_of:
  "map Field (allErrs_of lib cfg) =
     map Field (exportersEnabled_check cfg []) @
     map fst (filter (\<lambda>f. snd f \<noteq> [] \<and> url_Parse_fails (parseAuthority_fails lib) (snd f)) (urlFields cfg)) @
     map fst (filter (\<lambda>f. snd f < 0) (nonNegativeFields cfg)) @
     map fst (filter (\<lambda>f. incomplete (snd f)) (resourceRefs cfg))"
  by (simp add: allErrs_of_eq Invalid_def comp_def)

lemma distinct_map_fst_filter: "distinct (map fst xs) \<Longrightarrow> distinct (map fst (filter P xs))"
  by (induction xs) auto

lemma set_map_fst_filter: "set (map fst (filter P xs)) \<subseteq> set (map fst xs)"
  by auto

lemma Field_exporters: "set (map Field (exportersEnabled_check cfg [])) \<subseteq> set [''spec.exporters'']"
  and distinct_exporters: "distinct (map Field (exportersEnabled_check cfg []))"
  by (auto simp add: exportersEnabled_check_def Required_def)

lemma distinct_segments:
  assumes "distinct (A @ B @ C @ D)"
    and "set A' \<subseteq> set A" and "set B' \<subseteq> set B" and "set C' \<subseteq> set C" and "set D' \<subseteq> set D"
    and "distinct A'" and "distinct B'" and "distinct C'" and "distinct D'"
  shows "distinct (A' @ B' @ C' @ D')"
  using assms by (simp add: disjoint_iff subset_iff) blast

lemma distinct_paths:
  "distinct ([''spec.exporters''] @ map fst (urlFields cfg) @ map fst (nonNegativeFields cfg) @
             map fst (resourceRefs cfg))"
  by (simp add: urlFields_def nonNegativeFields_def resourceRefs_def)

lemma colon_free_paths:
  "\<forall>p \<in> set ([''spec.exporters''] @ map fst (urlFields cfg) @ map fst (nonNegativeFields cfg) @
              map fst (resourceRefs cfg)). CHR '':'' \<notin> set p"
  by (simp add: urlFields_def nonNegativeFields_def resourceRefs_def)

lemma distinct_Field_allErrs: "distinct (map Field (allErrs_of lib cfg))"
  unfolding Field_allErrs_of
  by (rule distinct_segments [OF distinct_paths Field_exporters set_map_fst_filter
        set_map_fst_filter set_map_fst_filter distinct_exporters])
     (rule distinct_map_fst_filter, simp add: urlFields_def nonNegativeFields_def resourceRefs_def)+

lemma Field_allErrs_subset:
  "set (map Field (allErrs_of lib cfg)) \<subseteq>
     set ([''spec.exporters''] @ map fst (urlFields cfg) @ map fst (nonNegativeFields cfg) @
          map fst (resourceRefs cfg))"
proof -
  have "set (A' @ B' @ C' @ D') \<subseteq> set (A @ B @ C @ D)"
    if "set A' \<subseteq> set A" "set B' \<subseteq> set B" "set C' \<subseteq> set C" "set D' \<subseteq> set D"
    for A B C D A' B' C' D' :: "string list"
    using that by auto
  from this [OF Field_exporters set_map_fst_filter set_map_fst_filter set_map_fst_filter]
  show ?thesis unfolding Field_allErrs_of .
qed

lemma ToAggregate_allErrs:
  "ToAggregate_loop fmtv (allErrs_of lib cfg) {} [] = allErrs_of lib cfg"
proof -
  have cf: "\<forall>e \<in> set (allErrs_of lib cfg). CHR '':'' \<notin> set (Field e)"
  proof
    fix e assume "e \<in> set (allErrs_of lib cfg)"
    then have "Field e \<in> set (map Field (allErrs_of lib cfg))" by simp
    then have "Field e \<in> set ([''spec.exporters''] @ map fst (urlFields cfg) @
                 map fst (nonNegativeFields cfg) @ map fst (resourceRefs cfg))"
      using Field_allErrs_subset by blast
    then show "CHR '':'' \<notin> set (Field e)"
      using colon_free_paths by blast
  qed
  have "distinct (map (FieldError_Error fmtv) (allErrs_of lib cfg))"
    using distinct_Field_allErrs cf by (rule distinct_messages)
  then show ?thesis
    using ToAggregate_loop_distinct [of fmtv "allErrs_of lib cfg" "{}" "[]"] by simp
qed

lemma Validate_eq:
  "Validate lib cfg =
     (if allErrs_of lib cfg = [] then None else Some (Aggregate (allErrs_of lib cfg)))"
  by (simp add: Validate_def ToAggregate_def NewAggregate_def ToAggregate_allErrs)

lemma Errors_Validate: "Errors (Validate lib cfg) = allErrs_of lib cfg"
  by (simp add: Validate_eq)

lemmas validate_defs =
  allErrs_of_def exportersEnabled_check_def cmp_Or_def Debug_IsEnabled_def OTLPHTTP_IsEnabled_def
  urlFields_def nonNegativeFields_def resourceRefs_def otlphttp_with_def zero_CollectorConfig_def
  all_defects_def

lemmas url_defs =
  url_Parse_fails_def Cut_def parse_fails_def stringContainsCTLByte_def byte_def getScheme_def
  HasPrefix_def HasSuffix_def

lemma Validate_bad_endpoint:
  "Validate lib (otlphttp_with (Some True) ''127.0.0.1:4318'' 0) =
     Some (Aggregate [Invalid ''spec.exporters.otlphttp.endpoint'' (StringValue ''127.0.0.1:4318'')
                        ''invalid URL specified''])"
  unfolding Validate_eq by (simp add: validate_defs url_defs)

lemma Validate_not_a_url: "Validate lib (otlphttp_with (Some True) ''not a url'' 0) = None"
  unfolding Validate_eq by (simp add: validate_defs url_defs)


lemma url_violation_present:
  assumes "(path, v) \<in> set (urlFields cfg)" and "v \<noteq> []"
    and "url_Parse_fails (parseAuthority_fails lib) v"
  shows "Invalid path (StringValue v) ''invalid URL specified'' \<in> set (allErrs_of lib cfg)"
proof -
  let ?P = "\<lambda>f. snd f \<noteq> [] \<and> url_Parse_fails (parseAuthority_fails lib) (snd f)"
  let ?mk = "\<lambda>f. Invalid (fst f) (StringValue (snd f)) ''invalid URL specified''"
  have "(path, v) \<in> set (filter ?P (urlFields cfg))"
    using assms by simp
  then have "?mk (path, v) \<in> ?mk ` set (filter ?P (urlFields cfg))"
    by (rule imageI)
  then show ?thesis unfolding allErrs_of_eq by simp
qed

lemma path_not_elsewhere:
  assumes "(path, v) \<in> set (urlFields cfg)"
  shows "path \<noteq> ''spec.exporters''"
    and "path \<notin> set (map fst (nonNegativeFields cfg))"
    and "path \<notin> set (map fst (resourceRefs cfg))"
proof -
  have p_url: "path \<in> set (map fst (urlFields cfg))"
    using assms by (simp add: rev_image_eqI)
  have dist: "distinct ([''spec.exporters''] @ map fst (urlFields cfg) @
      map fst (nonNegativeFields cfg) @ map fst (resourceRefs cfg))"
    by (rule distinct_paths)
  have "distinct (A @ B @ C @ D) \<Longrightarrow> p \<in> set B \<Longrightarrow> p \<notin> set A \<and> p \<notin> set C \<and> p \<notin> set D"
    for A B C D :: "string list" and p
    by auto
  from this [OF dist p_url]
  show "path \<noteq> ''spec.exporters''"
    and "path \<notin> set (map fst (nonNegativeFields cfg))"
    and "path \<notin> set (map fst (resourceRefs cfg))"
    by simp_all
qed


lemma allErrs_of_cases:
  assumes "e \<in> set (allErrs_of lib cfg)"
  shows "Field e = ''spec.exporters'' \<or>
         (\<exists>f \<in> set (urlFields cfg). snd f \<noteq> [] \<and> url_Parse_fails (parseAuthority_fails lib) (snd f) \<and>
             e = Invalid (fst f) (StringValue (snd f)) ''invalid URL specified'') \<or>
         Field e \<in> set (map fst (nonNegativeFields cfg)) \<or>
         Field e \<in> set (map fst (resourceRefs cfg))"
proof -
  let ?U = "map (\<lambda>f. Invalid (fst f) (StringValue (snd f)) ''invalid URL specified'')
             (filter (\<lambda>f. snd f \<noteq> [] \<and> url_Parse_fails (parseAuthority_fails lib) (snd f)) (urlFields cfg))"
  let ?N = "map (\<lambda>f. Invalid (fst f) (IntValue (snd f)) ''value cannot be negative'')
             (filter (\<lambda>f. snd f < 0) (nonNegativeFields cfg))"
  let ?R = "map (\<lambda>f. Invalid (fst f) (StringValue (fst f)) ''name or dataKey is empty'')
             (filter (\<lambda>f. incomplete (snd f)) (resourceRefs cfg))"
  from assms consider (E) "e \<in> set (exportersEnabled_check cfg [])"
    | (U) "e \<in> set ?U" | (N) "e \<in> set ?N" | (R) "e \<in> set ?R"
    unfolding allErrs_of_eq set_append by blast
  then show ?thesis
  proof cases
    case E
    then have "Field e \<in> set (map Field (exportersEnabled_check cfg []))" by simp
    then have "Field e = ''spec.exporters''" using Field_exporters [of cfg] by auto
    then show ?thesis by simp
  next
    case U
    then show ?thesis by auto
  next
    case N
    then obtain f where "f \<in> set (nonNegativeFields cfg)"
        "e = Invalid (fst f) (IntValue (snd f)) ''value cannot be negative''"
      by auto
    then have "Field e \<in> set (map fst (nonNegativeFields cfg))" by (simp add: Invalid_def)
    then show ?thesis by simp
  next
    case R
    then obtain f where "f \<in> set (resourceRefs cfg)"
        "e = Invalid (fst f) (StringValue (fst f)) ''name or dataKey is empty''"
      by auto
    then have "Field e \<in> set (map fst (resourceRefs cfg))" by (simp add: Invalid_def)
    then show ?thesis by simp
  qed
qed

lemma url_violation_absent:
  assumes pv: "(path, v) \<in> set (urlFields cfg)"
    and ok: "v = [] \<or> \<not> url_Parse_fails (parseAuthority_fails lib) v"
    and e: "e \<in> set (allErrs_of lib cfg)"
  shows "Field e \<noteq> path"
proof
  assume eq: "Field e = path"
  note ne = path_not_elsewhere [OF pv]
  from allErrs_of_cases [OF e] eq ne
  obtain f where f: "f \<in> set (urlFields cfg)" "snd f \<noteq> []"
      "url_Parse_fails (parseAuthority_fails lib) (snd f)"
      "e = Invalid (fst f) (StringValue (snd f)) ''invalid URL specified''"
    by blast
  have "fst f = path" using f(4) eq by (simp add: Invalid_def)
  then have "(path, snd f) \<in> set (urlFields cfg)" using f(1) by (cases f) simp
  moreover have "distinct (map fst (urlFields cfg))" by (simp add: urlFields_def)
  ultimately have "snd f = v" using pv eq_key_imp_eq_value by fastforce
  then show False using f(2,3) ok by simp
qed

section \<open>The claims about \<open>Validate\<close>\<close>

text \<open>
  Claim C1, as amended.  For each of the five endpoint fields of the OTLP HTTP exporter,
  \<open>endpoint\<close>, \<open>traces_endpoint\<close>, \<open>metrics_endpoint\<close>, \<open>logs_endpoint\<close> and
  \<open>profiles_endpoint\<close>, \<open>Validate\<close> reports the violation "invalid URL specified" on that
  field when the field is not empty and \<open>url.Parse\<close> rejects it, and reports no violation on
  that field when it is empty or \<open>url.Parse\<close> accepts it.  With one exporter enabled and the
  endpoint \<open>127.0.0.1:4318\<close>, which \<open>url.Parse\<close> rejects, the result is that one violation
  only.  \<open>url.Parse\<close> accepts \<open>not a url\<close> (a relative reference), so that endpoint yields no
  violation.
\<close>

theorem C1_url_fields:
  "(\<forall>(path, v) \<in> set
        [(''spec.exporters.otlphttp.endpoint'', Endpoint (OTLPHTTPExporter (Exporters (Spec cfg)))),
         (''spec.exporters.otlphttp.traces_endpoint'', TracesEndpoint (OTLPHTTPExporter (Exporters (Spec cfg)))),
         (''spec.exporters.otlphttp.metrics_endpoint'', MetricsEndpoint (OTLPHTTPExporter (Exporters (Spec cfg)))),
         (''spec.exporters.otlphttp.logs_endpoint'', LogsEndpoint (OTLPHTTPExporter (Exporters (Spec cfg)))),
         (''spec.exporters.otlphttp.profiles_endpoint'', ProfilesEndpoint (OTLPHTTPExporter (Exporters (Spec cfg))))].
      (v \<noteq> [] \<and> url_Parse_fails (parseAuthority_fails lib) v \<longrightarrow>
         Invalid path (StringValue v) ''invalid URL specified'' \<in> set (Errors (Validate lib cfg))) \<and>
      (v = [] \<or> \<not> url_Parse_fails (parseAuthority_fails lib) v \<longrightarrow>
         (\<forall>e \<in> set (Errors (Validate lib cfg)). Field e \<noteq> path))) \<and>
   Validate lib (otlphttp_with (Some True) ''127.0.0.1:4318'' 0) =
     Some (Aggregate [Invalid ''spec.exporters.otlphttp.endpoint'' (StringValue ''127.0.0.1:4318'')
                        ''invalid URL specified'']) \<and>
   \<not> url_Parse_fails (parseAuthority_fails lib) ''not a url'' \<and>
   Validate lib (otlphttp_with (Some True) ''not a url'' 0) = None"
proof (intro conjI)
  have table:
    "[(''spec.exporters.otlphttp.endpoint'', Endpoint (OTLPHTTPExporter (Exporters (Spec cfg)))),
      (''spec.exporters.otlphttp.traces_endpoint'', TracesEndpoint (OTLPHTTPExporter (Exporters (Spec cfg)))),
      (''spec.exporters.otlphttp.metrics_endpoint'', MetricsEndpoint (OTLPHTTPExporter (Exporters (Spec cfg)))),
      (''spec.exporters.otlphttp.logs_endpoint'', LogsEndpoint (OTLPHTTPExporter (Exporters (Spec cfg)))),
      (''spec.exporters.otlphttp.profiles_endpoint'', ProfilesEndpoint (OTLPHTTPExporter (Exporters (Spec cfg))))]
     = urlFields cfg"
    by (simp add: urlFields_def)
  show "\<forall>(path, v) \<in> set
        [(''spec.exporters.otlphttp.endpoint'', Endpoint (OTLPHTTPExporter (Exporters (Spec cfg)))),
         (''spec.exporters.otlphttp.traces_endpoint'', TracesEndpoint (OTLPHTTPExporter (Exporters (Spec cfg)))),
         (''spec.exporters.otlphttp.metrics_endpoint'', MetricsEndpoint (OTLPHTTPExporter (Exporters (Spec cfg)))),
         (''spec.exporters.otlphttp.logs_endpoint'', LogsEndpoint (OTLPHTTPExporter (Exporters (Spec cfg)))),
         (''spec.exporters.otlphttp.profiles_endpoint'', ProfilesEndpoint (OTLPHTTPExporter (Exporters (Spec cfg))))].
      (v \<noteq> [] \<and> url_Parse_fails (parseAuthority_fails lib) v \<longrightarrow>
         Invalid path (StringValue v) ''invalid URL specified'' \<in> set (Errors (Validate lib cfg))) \<and>
      (v = [] \<or> \<not> url_Parse_fails (parseAuthority_fails lib) v \<longrightarrow>
         (\<forall>e \<in> set (Errors (Validate lib cfg)). Field e \<noteq> path))"
    unfolding table
  proof (intro ballI, clarify, intro conjI impI ballI)
    fix path v
    assume "(path, v) \<in> set (urlFields cfg)"
      and "v \<noteq> [] \<and> url_Parse_fails (parseAuthority_fails lib) v"
    then show "Invalid path (StringValue v) ''invalid URL specified'' \<in> set (Errors (Validate lib cfg))"
      unfolding Errors_Validate by (simp add: url_violation_present)
  next
    fix path v e
    assume "(path, v) \<in> set (urlFields cfg)"
      and "v = [] \<or> \<not> url_Parse_fails (parseAuthority_fails lib) v"
      and "e \<in> set (Errors (Validate lib cfg))"
    then show "Field e \<noteq> path"
      unfolding Errors_Validate by (rule url_violation_absent)
  qed
next
  show "Validate lib (otlphttp_with (Some True) ''127.0.0.1:4318'' 0) =
     Some (Aggregate [Invalid ''spec.exporters.otlphttp.endpoint'' (StringValue ''127.0.0.1:4318'')
                        ''invalid URL specified''])"
    by (rule Validate_bad_endpoint)
next
  show "\<not> url_Parse_fails (parseAuthority_fails lib) ''not a url''"
    by (simp add: url_defs)
next
  show "Validate lib (otlphttp_with (Some True) ''not a url'' 0) = None"
    by (rule Validate_not_a_url)
qed

theorem C1_url_fields_witness:
  "Invalid ''spec.exporters.otlphttp.endpoint'' (StringValue ''127.0.0.1:4318'') ''invalid URL specified''
     \<in> set (Errors (Validate lib0 all_defects)) \<and>
   Invalid ''spec.exporters.otlphttp.traces_endpoint'' (StringValue ''%zz'') ''invalid URL specified''
     \<in> set (Errors (Validate lib0 all_defects)) \<and>
   Invalid ''spec.exporters.otlphttp.metrics_endpoint'' (StringValue '':bad'') ''invalid URL specified''
     \<in> set (Errors (Validate lib0 all_defects)) \<and>
   Invalid ''spec.exporters.otlphttp.logs_endpoint'' (StringValue ''/logs%2'') ''invalid URL specified''
     \<in> set (Errors (Validate lib0 all_defects)) \<and>
   Invalid ''spec.exporters.otlphttp.profiles_endpoint'' (StringValue ''https://example.com/%g1'')
       ''invalid URL specified''
     \<in> set (Errors (Validate lib0 all_defects)) \<and>
   filter (\<lambda>e. Field e \<in> {''spec.exporters.otlphttp.endpoint'', ''spec.exporters.otlphttp.traces_endpoint'',
                 ''spec.exporters.otlphttp.metrics_endpoint'', ''spec.exporters.otlphttp.logs_endpoint'',
                 ''spec.exporters.otlphttp.profiles_endpoint''})
     (Errors (Validate lib0 zero_CollectorConfig)) = []"
proof -
  note bad = C1_url_fields [of all_defects lib0, THEN conjunct1, rule_format]
  note empty = C1_url_fields [of zero_CollectorConfig lib0, THEN conjunct1, rule_format]
  have fails:
    "url_Parse_fails (parseAuthority_fails lib0) ''127.0.0.1:4318''"
    "url_Parse_fails (parseAuthority_fails lib0) ''%zz''"
    "url_Parse_fails (parseAuthority_fails lib0) '':bad''"
    "url_Parse_fails (parseAuthority_fails lib0) ''/logs%2''"
    "url_Parse_fails (parseAuthority_fails lib0) ''https://example.com/%g1''"
    by (simp_all add: url_defs ishex_def lib0_def)
  have b1: "Invalid ''spec.exporters.otlphttp.endpoint'' (StringValue ''127.0.0.1:4318'') ''invalid URL specified''
     \<in> set (Errors (Validate lib0 all_defects))"
    using bad [of "(''spec.exporters.otlphttp.endpoint'', ''127.0.0.1:4318'')"] fails(1)
    by (simp add: all_defects_def)
  have b2: "Invalid ''spec.exporters.otlphttp.traces_endpoint'' (StringValue ''%zz'') ''invalid URL specified''
     \<in> set (Errors (Validate lib0 all_defects))"
    using bad [of "(''spec.exporters.otlphttp.traces_endpoint'', ''%zz'')"] fails(2)
    by (simp add: all_defects_def)
  have b3: "Invalid ''spec.exporters.otlphttp.metrics_endpoint'' (StringValue '':bad'') ''invalid URL specified''
     \<in> set (Errors (Validate lib0 all_defects))"
    using bad [of "(''spec.exporters.otlphttp.metrics_endpoint'', '':bad'')"] fails(3)
    by (simp add: all_defects_def)
  have b4: "Invalid ''spec.exporters.otlphttp.logs_endpoint'' (StringValue ''/logs%2'') ''invalid URL specified''
     \<in> set (Errors (Validate lib0 all_defects))"
    using bad [of "(''spec.exporters.otlphttp.logs_endpoint'', ''/logs%2'')"] fails(4)
    by (simp add: all_defects_def)
  have b5: "Invalid ''spec.exporters.otlphttp.profiles_endpoint'' (StringValue ''https://example.com/%g1'')
       ''invalid URL specified'' \<in> set (Errors (Validate lib0 all_defects))"
    using bad [of "(''spec.exporters.otlphttp.profiles_endpoint'', ''https://example.com/%g1'')"] fails(5)
    by (simp add: all_defects_def)
  have none: "\<forall>e \<in> set (Errors (Validate lib0 zero_CollectorConfig)). Field e \<noteq> path"
    if "path \<in> {''spec.exporters.otlphttp.endpoint'', ''spec.exporters.otlphttp.traces_endpoint'',
                 ''spec.exporters.otlphttp.metrics_endpoint'', ''spec.exporters.otlphttp.logs_endpoint'',
                 ''spec.exporters.otlphttp.profiles_endpoint''}" for path
    using empty [of "(path, [])"] that by (simp add: zero_CollectorConfig_def)
  have e: "filter (\<lambda>e. Field e \<in> {''spec.exporters.otlphttp.endpoint'', ''spec.exporters.otlphttp.traces_endpoint'',
                 ''spec.exporters.otlphttp.metrics_endpoint'', ''spec.exporters.otlphttp.logs_endpoint'',
                 ''spec.exporters.otlphttp.profiles_endpoint''})
     (Errors (Validate lib0 zero_CollectorConfig)) = []"
    unfolding filter_empty_conv using none by blast
  from b1 b2 b3 b4 b5 e show ?thesis by (intro conjI)
qed

text \<open>
  Claim C1 as stated fails: with the OTLP HTTP exporter enabled and the endpoint
  \<open>not a url\<close>, \<open>Validate\<close> reports no violation at all.
\<close>

theorem C1_not_a_url_counterexample:
  "Endpoint (OTLPHTTPExporter (Exporters (Spec (otlphttp_with (Some True) ''not a url'' 0)))) = ''not a url'' \<and>
   OTLPHTTP_IsEnabled (OTLPHTTPExporter (Exporters (Spec (otlphttp_with (Some True) ''not a url'' 0)))) \<and>
   Errors (Validate lib0 (otlphttp_with (Some True) ''not a url'' 0)) = []"
  unfolding Errors_Validate by (simp add: validate_defs url_defs)

text \<open>
  Claim C3.  When neither exporter's \<open>enabled\<close> flag is true, \<open>Validate\<close> returns an error whose
  violations contain "no exporter enabled" on \<open>spec.exporters\<close>, whatever the other fields
  hold; for the configuration with an empty exporters block that violation is the only one.
\<close>

theorem C3_no_exporter_enabled:
  "(Debug_Enabled (DebugExporter (Exporters (Spec cfg))) \<noteq> Some True \<and>
    Enabled (OTLPHTTPExporter (Exporters (Spec cfg))) \<noteq> Some True \<longrightarrow>
      (\<exists>errs. Validate lib cfg = Some (Aggregate errs) \<and>
              Required ''spec.exporters'' ''no exporter enabled'' \<in> set errs)) \<and>
   Validate lib zero_CollectorConfig =
     Some (Aggregate [Required ''spec.exporters'' ''no exporter enabled''])"
proof (intro conjI impI)
  assume flags: "Debug_Enabled (DebugExporter (Exporters (Spec cfg))) \<noteq> Some True \<and>
    Enabled (OTLPHTTPExporter (Exporters (Spec cfg))) \<noteq> Some True"
  then have "exportersEnabled_check cfg [] = [Required ''spec.exporters'' ''no exporter enabled'']"
    by (simp add: exportersEnabled_check_def cmp_Or_def Debug_IsEnabled_def OTLPHTTP_IsEnabled_def)
  then have mem: "Required ''spec.exporters'' ''no exporter enabled'' \<in> set (allErrs_of lib cfg)"
    unfolding allErrs_of_eq by simp
  then have "allErrs_of lib cfg \<noteq> []" by auto
  then have "Validate lib cfg = Some (Aggregate (allErrs_of lib cfg))"
    by (simp add: Validate_eq)
  with mem show "\<exists>errs. Validate lib cfg = Some (Aggregate errs) \<and>
      Required ''spec.exporters'' ''no exporter enabled'' \<in> set errs"
    by blast
next
  show "Validate lib zero_CollectorConfig =
     Some (Aggregate [Required ''spec.exporters'' ''no exporter enabled''])"
    unfolding Validate_eq by (simp add: validate_defs)
qed

theorem C3_no_exporter_enabled_witness:
  "Debug_Enabled (DebugExporter (Exporters (Spec (otlphttp_with (Some False) ''127.0.0.1:4318'' (- 1))))) \<noteq> Some True \<and>
   Enabled (OTLPHTTPExporter (Exporters (Spec (otlphttp_with (Some False) ''127.0.0.1:4318'' (- 1))))) \<noteq> Some True \<and>
   (\<exists>errs. Validate lib0 (otlphttp_with (Some False) ''127.0.0.1:4318'' (- 1)) = Some (Aggregate errs) \<and>
              Required ''spec.exporters'' ''no exporter enabled'' \<in> set errs)"
proof -
  have flags: "Debug_Enabled (DebugExporter (Exporters (Spec (otlphttp_with (Some False) ''127.0.0.1:4318'' (- 1))))) \<noteq> Some True \<and>
   Enabled (OTLPHTTPExporter (Exporters (Spec (otlphttp_with (Some False) ''127.0.0.1:4318'' (- 1))))) \<noteq> Some True"
    by (simp add: otlphttp_with_def)
  from C3_no_exporter_enabled [of "otlphttp_with (Some False) ''127.0.0.1:4318'' (- 1)" lib0,
      THEN conjunct1, rule_format, OF flags] flags
  show ?thesis by simp
qed

text \<open>
  Claim C4.  On every call \<open>Validate\<close> runs the four rules and returns all their violations,
  in this order: "no exporter enabled" when neither exporter's flag is true; "invalid URL
  specified" for each of the five endpoints that is not empty and does not parse; "value
  cannot be negative" for each of the read and write buffer sizes below zero; "name or dataKey
  is empty" for each of the references \<open>token\<close>, \<open>tls.ca\<close>, \<open>tls.cert\<close> and \<open>tls.key\<close> that
  is present and lacks its name or its data key.  It returns \<open>nil\<close> only when no rule is
  violated, and never stops at the first failure.
\<close>

theorem C4_all_rules_accumulate:
  "Validate lib cfg =
     (let allErrs =
        (if Debug_Enabled (DebugExporter (Exporters (Spec cfg))) = Some True \<or>
            Enabled (OTLPHTTPExporter (Exporters (Spec cfg))) = Some True
         then [] else [Required ''spec.exporters'' ''no exporter enabled'']) @
        map (\<lambda>f. Invalid (fst f) (StringValue (snd f)) ''invalid URL specified'')
          (filter (\<lambda>f. snd f \<noteq> [] \<and> url_Parse_fails (parseAuthority_fails lib) (snd f))
             [(''spec.exporters.otlphttp.endpoint'', Endpoint (OTLPHTTPExporter (Exporters (Spec cfg)))),
              (''spec.exporters.otlphttp.traces_endpoint'', TracesEndpoint (OTLPHTTPExporter (Exporters (Spec cfg)))),
              (''spec.exporters.otlphttp.metrics_endpoint'', MetricsEndpoint (OTLPHTTPExporter (Exporters (Spec cfg)))),
              (''spec.exporters.otlphttp.logs_endpoint'', LogsEndpoint (OTLPHTTPExporter (Exporters (Spec cfg)))),
              (''spec.exporters.otlphttp.profiles_endpoint'',
                 ProfilesEndpoint (OTLPHTTPExporter (Exporters (Spec cfg))))]) @
        map (\<lambda>f. Invalid (fst f) (IntValue (snd f)) ''value cannot be negative'')
          (filter (\<lambda>f. snd f < 0)
             [(''spec.exporters.otlphttp.read_buffer_size'', ReadBufferSize (OTLPHTTPExporter (Exporters (Spec cfg)))),
              (''spec.exporters.otlphttp.write_buffer_size'',
                 WriteBufferSize (OTLPHTTPExporter (Exporters (Spec cfg))))]) @
        map (\<lambda>f. Invalid (fst f) (StringValue (fst f)) ''name or dataKey is empty'')
          (filter (\<lambda>f. case snd f of None \<Rightarrow> False
                        | Some ref \<Rightarrow> Name (ResourceRef ref) = [] \<or> DataKey (ResourceRef ref) = [])
             [(''spec.exporters.otlphttp.token'', Token (OTLPHTTPExporter (Exporters (Spec cfg)))),
              (''spec.exporters.otlphttp.tls.ca'', CA (TLS (OTLPHTTPExporter (Exporters (Spec cfg))))),
              (''spec.exporters.otlphttp.tls.cert'', Cert (TLS (OTLPHTTPExporter (Exporters (Spec cfg))))),
              (''spec.exporters.otlphttp.tls.key'', Key (TLS (OTLPHTTPExporter (Exporters (Spec cfg)))))])
      in if allErrs = [] then None else Some (Aggregate allErrs))"
proof -
  have e: "exportersEnabled_check cfg [] =
      (if Debug_Enabled (DebugExporter (Exporters (Spec cfg))) = Some True \<or>
          Enabled (OTLPHTTPExporter (Exporters (Spec cfg))) = Some True
       then [] else [Required ''spec.exporters'' ''no exporter enabled''])"
    by (simp add: exportersEnabled_check_def cmp_Or_def Debug_IsEnabled_def OTLPHTTP_IsEnabled_def)
  have i: "incomplete = (\<lambda>r. case r of None \<Rightarrow> False
      | Some ref \<Rightarrow> Name (ResourceRef ref) = [] \<or> DataKey (ResourceRef ref) = [])"
    by (rule ext) (simp add: incomplete_def)
  show ?thesis
    unfolding Validate_eq Let_def allErrs_of_eq e i
    by (simp only: urlFields_def nonNegativeFields_def resourceRefs_def)
qed

theorem C4_all_rules_accumulate_witness:
  "Validate lib0 all_defects =
     Some (Aggregate
       [Required ''spec.exporters'' ''no exporter enabled'',
        Invalid ''spec.exporters.otlphttp.endpoint'' (StringValue ''127.0.0.1:4318'') ''invalid URL specified'',
        Invalid ''spec.exporters.otlphttp.traces_endpoint'' (StringValue ''%zz'') ''invalid URL specified'',
        Invalid ''spec.exporters.otlphttp.metrics_endpoint'' (StringValue '':bad'') ''invalid URL specified'',
        Invalid ''spec.exporters.otlphttp.logs_endpoint'' (StringValue ''/logs%2'') ''invalid URL specified'',
        Invalid ''spec.exporters.otlphttp.profiles_endpoint'' (StringValue ''https://example.com/%g1'')
          ''invalid URL specified'',
        Invalid ''spec.exporters.otlphttp.read_buffer_size'' (IntValue (- 1)) ''value cannot be negative'',
        Invalid ''spec.exporters.otlphttp.write_buffer_size'' (IntValue (- 4096)) ''value cannot be negative'',
        Invalid ''spec.exporters.otlphttp.token'' (StringValue ''spec.exporters.otlphttp.token'')
          ''name or dataKey is empty'',
        Invalid ''spec.exporters.otlphttp.tls.ca'' (StringValue ''spec.exporters.otlphttp.tls.ca'')
          ''name or dataKey is empty'',
        Invalid ''spec.exporters.otlphttp.tls.cert'' (StringValue ''spec.exporters.otlphttp.tls.cert'')
          ''name or dataKey is empty'',
        Invalid ''spec.exporters.otlphttp.tls.key'' (StringValue ''spec.exporters.otlphttp.tls.key'')
          ''name or dataKey is empty''])"
proof -
  have fails:
    "url_Parse_fails (parseAuthority_fails lib0) ''127.0.0.1:4318''"
    "url_Parse_fails (parseAuthority_fails lib0) ''%zz''"
    "url_Parse_fails (parseAuthority_fails lib0) '':bad''"
    "url_Parse_fails (parseAuthority_fails lib0) ''/logs%2''"
    "url_Parse_fails (parseAuthority_fails lib0) ''https://example.com/%g1''"
    by (simp_all add: url_defs ishex_def lib0_def)
  show ?thesis
    unfolding C4_all_rules_accumulate [of lib0 all_defects]
    by (simp add: all_defects_def fails)
qed

section \<open>The admission webhook\<close>

lemma IndexFunc_from_none:
  "\<forall>x \<in> set xs. \<not> f x \<Longrightarrow> IndexFunc_from i xs f = - 1"
  by (induction xs arbitrary: i) simp_all

lemma IndexFunc_from_nonneg_or_none: "IndexFunc_from i xs f = - 1 \<or> int i \<le> IndexFunc_from i xs f"
proof (induction xs arbitrary: i)
  case Nil
  then show ?case by simp
next
  case (Cons x xs)
  from Cons [of "Suc i"] show ?case by auto
qed

lemma IndexFunc_from_find:
  "find f xs = Some x \<Longrightarrow>
     IndexFunc_from i xs f \<noteq> - 1 \<and> xs ! nat (IndexFunc_from i xs f - int i) = x"
proof (induction xs arbitrary: i)
  case Nil
  then show ?case by simp
next
  case (Cons y ys)
  show ?case
  proof (cases "f y")
    case True
    with Cons.prems show ?thesis by simp
  next
    case False
    with Cons.prems have fnd: "find f ys = Some x" by simp
    note IH = Cons.IH [OF fnd, of "Suc i"]
    have "int (Suc i) \<le> IndexFunc_from (Suc i) ys f"
      using IndexFunc_from_nonneg_or_none [of "Suc i" ys f] IH by auto
    then have "nat (IndexFunc_from (Suc i) ys f - int i) = Suc (nat (IndexFunc_from (Suc i) ys f - int (Suc i)))"
      by simp
    with IH False show ?thesis by simp
  qed
qed

lemma getExtension_not_found:
  assumes "\<forall>ext \<in> set (Extensions (Shoot_Spec shoot)). Type ext \<noteq> extensionType v"
  shows "getExtension v (Some shoot) = Inl (Errorf_w [] ErrExtensionNotFound ('': '' @ extensionType v))"
  using IndexFunc_from_none [of "Extensions (Shoot_Spec shoot)" "\<lambda>ext. Type ext = extensionType v" 0] assms
  by (simp add: getExtension_def IndexFunc_def)

lemma getExtension_found:
  assumes "find (\<lambda>ext. Type ext = extensionType v) (Extensions (Shoot_Spec shoot)) = Some ext"
  shows "getExtension v (Some shoot) = Inr ext"
  using IndexFunc_from_find [OF assms, of 0]
  by (simp add: getExtension_def IndexFunc_def)

text \<open>
  Claim C8.  A shoot whose extension block of the validator's type (the first such block) is
  marked disabled is accepted, whatever the block's provider config holds and whatever the
  decoder would do with it: the payload is neither decoded nor validated.
\<close>

theorem C8_disabled_extension_accepted:
  assumes "find (\<lambda>ext. Type ext = extensionType v) (Extensions (Shoot_Spec shoot)) = Some ext"
    and "Disabled ext = Some True"
  shows "shootValidator_Validate lib v (ShootObject (Some shoot)) oldObj = Return None"
  using getExtension_found [OF assms(1)] assms(2)
  by (simp add: shootValidator_Validate_def validateExtension_def)

theorem C8_disabled_extension_accepted_witness:
  "find (\<lambda>ext. Type ext = extensionType v0)
     (Extensions (Shoot_Spec (shoot_with
        [\<lparr>Type = ''other'', ProviderConfig = None, Disabled = None\<rparr>,
         \<lparr>Type = ''otelcol'', ProviderConfig = Some \<lparr>Raw = ''garbage''\<rparr>, Disabled = Some True\<rparr>])))
     = Some \<lparr>Type = ''otelcol'', ProviderConfig = Some \<lparr>Raw = ''garbage''\<rparr>, Disabled = Some True\<rparr> \<and>
   decoder v0 ''garbage'' = Inl ''cannot decode'' \<and>
   shootValidator_Validate lib0 v0
     (ShootObject (Some (shoot_with
        [\<lparr>Type = ''other'', ProviderConfig = None, Disabled = None\<rparr>,
         \<lparr>Type = ''otelcol'', ProviderConfig = Some \<lparr>Raw = ''garbage''\<rparr>, Disabled = Some True\<rparr>])))
     NilObject = Return None"
proof -
  have f: "find (\<lambda>ext. Type ext = extensionType v0)
     (Extensions (Shoot_Spec (shoot_with
        [\<lparr>Type = ''other'', ProviderConfig = None, Disabled = None\<rparr>,
         \<lparr>Type = ''otelcol'', ProviderConfig = Some \<lparr>Raw = ''garbage''\<rparr>, Disabled = Some True\<rparr>])))
     = Some \<lparr>Type = ''otelcol'', ProviderConfig = Some \<lparr>Raw = ''garbage''\<rparr>, Disabled = Some True\<rparr>"
    by (simp add: v0_def ExtensionType_def shoot_with_def)
  have d: "decoder v0 ''garbage'' = Inl ''cannot decode''"
    by (simp add: v0_def dec0_def)
  from C8_disabled_extension_accepted [OF f, of lib0 NilObject] f d show ?thesis by simp
qed

text \<open>
  Claim C9.  A shoot with no extension block of the validator's type is accepted.  The lookup
  returns an error that wraps \<open>ErrExtensionNotFound\<close>; \<open>IgnoreExtensionNotFound\<close> turns an
  error that is or wraps \<open>ErrExtensionNotFound\<close> into \<open>nil\<close> and returns every other error,
  and \<open>nil\<close>, unchanged.
\<close>

theorem C9_missing_extension_accepted:
  assumes "\<forall>ext \<in> set (Extensions (Shoot_Spec shoot)). Type ext \<noteq> extensionType v"
  shows "shootValidator_Validate lib v (ShootObject (Some shoot)) oldObj = Return None \<and>
         getExtension v (Some shoot) = Inl (Errorf_w [] ErrExtensionNotFound ('': '' @ extensionType v)) \<and>
         errors_Is_ErrExtensionNotFound (Errorf_w [] ErrExtensionNotFound ('': '' @ extensionType v)) \<and>
         IgnoreExtensionNotFound (Some e) = (if errors_Is_ErrExtensionNotFound e then None else Some e) \<and>
         IgnoreExtensionNotFound None = None"
proof -
  have g: "getExtension v (Some shoot) = Inl (Errorf_w [] ErrExtensionNotFound ('': '' @ extensionType v))"
    using assms by (rule getExtension_not_found)
  have i: "IgnoreExtensionNotFound (Some e) = (if errors_Is_ErrExtensionNotFound e then None else Some e)"
    by (simp add: IgnoreExtensionNotFound_def)
  have n: "IgnoreExtensionNotFound None = None"
    by (simp add: IgnoreExtensionNotFound_def)
  have "shootValidator_Validate lib v (ShootObject (Some shoot)) oldObj = Return None"
    using g by (simp add: shootValidator_Validate_def validateExtension_def IgnoreExtensionNotFound_def)
  with g i n show ?thesis by simp
qed

theorem C9_missing_extension_accepted_witness:
  "list_all (\<lambda>ext. Type ext \<noteq> extensionType v0)
     (Extensions (Shoot_Spec (shoot_with
        [\<lparr>Type = ''other'', ProviderConfig = Some \<lparr>Raw = ''garbage''\<rparr>, Disabled = None\<rparr>]))) \<and>
   shootValidator_Validate lib0 v0
     (ShootObject (Some (shoot_with
        [\<lparr>Type = ''other'', ProviderConfig = Some \<lparr>Raw = ''garbage''\<rparr>, Disabled = None\<rparr>])))
     NilObject = Return None \<and>
   getExtension v0 (Some (shoot_with
        [\<lparr>Type = ''other'', ProviderConfig = Some \<lparr>Raw = ''garbage''\<rparr>, Disabled = None\<rparr>])) =
     Inl (Errorf_w [] ErrExtensionNotFound '': otelcol'') \<and>
   IgnoreExtensionNotFound (Some ErrExtensionNotFound) = None \<and>
   IgnoreExtensionNotFound (Some (errorString ''an error'')) = Some (errorString ''an error'')"
proof -
  let ?shoot = "shoot_with [\<lparr>Type = ''other'', ProviderConfig = Some \<lparr>Raw = ''garbage''\<rparr>, Disabled = None\<rparr>]"
  have h: "\<forall>ext \<in> set (Extensions (Shoot_Spec ?shoot)). Type ext \<noteq> extensionType v0"
    by (simp add: shoot_with_def v0_def ExtensionType_def)
  note t1 = C9_missing_extension_accepted [OF h, of lib0 NilObject "ErrExtensionNotFound"]
  note t2 = C9_missing_extension_accepted [OF h, of lib0 NilObject "errorString ''an error''"]
  have a: "shootValidator_Validate lib0 v0 (ShootObject (Some ?shoot)) NilObject = Return None"
    using t1 by (elim conjE)
  have b: "getExtension v0 (Some ?shoot) = Inl (Errorf_w [] ErrExtensionNotFound ('': '' @ extensionType v0))"
    using t1 by (elim conjE)
  have c: "IgnoreExtensionNotFound (Some ErrExtensionNotFound) = None"
    using t1 by simp
  have d: "IgnoreExtensionNotFound (Some (errorString ''an error'')) = Some (errorString ''an error'')"
    using t2 by simp
  have l: "list_all (\<lambda>ext. Type ext \<noteq> extensionType v0) (Extensions (Shoot_Spec ?shoot))"
    using h by (simp add: list_all_iff)
  have e: "'': '' @ extensionType v0 = '': otelcol''"
    by (simp add: v0_def ExtensionType_def)
  show ?thesis using a b c d l unfolding e by simp
qed

text \<open>
  Claim C10.  The webhook's verdict does not depend on the old object: for every new object
  and any two old objects, a shoot, an object of another type or \<open>nil\<close>, the results are the
  same.
\<close>

theorem C10_old_object_ignored:
  "shootValidator_Validate lib v newObj oldObj1 = shootValidator_Validate lib v newObj oldObj2"
  by (simp add: shootValidator_Validate_def validateExtension_def split: Object.split option.split)

theorem C10_old_object_ignored_witness:
  "shootValidator_Validate lib0 v0
     (ShootObject (Some (shoot_with [\<lparr>Type = ''otelcol'', ProviderConfig = None, Disabled = None\<rparr>])))
     (ShootObject (Some (shoot_with [])))
   = shootValidator_Validate lib0 v0
     (ShootObject (Some (shoot_with [\<lparr>Type = ''otelcol'', ProviderConfig = None, Disabled = None\<rparr>])))
     (OtherObject ''*v1.Pod'')"
  by (rule C10_old_object_ignored)

section \<open>The actuator\<close>

lemma Reconcile_gate_on:
  assumes "gardenletFeatureGates a OpenTelemetryCollector = Some True"
  shows "Reconcile lib g a ex w =
     (fst (Reconcile_body lib g a ex (ex_Namespace ex) w),
      Inc (ex_Namespace ex) ''reconcile'' (snd (Reconcile_body lib g a ex (ex_Namespace ex) w)))"
  using assms by (simp add: Reconcile_def Let_def split_beta)

lemma Reconcile_gate_off:
  assumes "gardenletFeatureGates a OpenTelemetryCollector = None \<or>
           gardenletFeatureGates a OpenTelemetryCollector = Some False"
  shows "Reconcile lib g a ex w =
     Delete g a ex
       (Info ''gardenlet feature gate OpenTelemetryCollector is either missing or disabled'' [] w)"
  using assms by (auto simp add: Reconcile_def)


lemma Reconcile_body_hibernated:
  assumes "GetCluster g clusterName (seed w) = Inr c" and "HibernationIsEnabled g c"
  shows "Reconcile_body lib g a ex clusterName w =
     (None, Info ''reconciling extension'' [(''name'', ex_Name ex), (''cluster'', clusterName)] w)"
  using assms by (simp add: Reconcile_body_def Info_def)




lemma Delete_eq:
  "Delete g a ex w =
     (IgnoreNotFound g (fst (DeleteForSeed g (ex_Namespace ex) managedResourceName (seed w))),
      w\<lparr>counters := (counters w)((ex_Namespace ex, ''delete'') := counters w (ex_Namespace ex, ''delete'') + 1),
        logs := logs w @ [(''deleting resources managed by extension'', [])],
        calls := calls w @ [DeleteForSeed_call (ex_Namespace ex) managedResourceName],
        seed := snd (DeleteForSeed g (ex_Namespace ex) managedResourceName (seed w))\<rparr>)"
  by (simp add: Delete_def Info_def Inc_def Let_def split_beta)

lemmas actuator_defs =
  Reconcile_def Reconcile_body_def Delete_def ForceDelete_def Restore_def Migrate_def
  Inc_def Info_def IgnoreNotFound_def a_on_def a_off_def g0_def ex0_def w0_def dec0_def
  OpenTelemetryCollector_def managedResourceName_def

lemma Reconcile_body_counters:
  "counters (snd (Reconcile_body lib g a ex clusterName w)) = counters w"
  by (simp add: Reconcile_body_def Info_def Let_def split_beta split: sum.split option.split)

lemma Reconcile_gate_on_counter:
  assumes "gardenletFeatureGates a OpenTelemetryCollector = Some True"
  shows "counters (snd (Reconcile lib g a ex w)) (ex_Namespace ex, ''reconcile'') =
           counters w (ex_Namespace ex, ''reconcile'') + 1"
  unfolding Reconcile_gate_on [OF assms] by (simp add: Inc_def Reconcile_body_counters)

lemma Delete_counter:
  "counters (snd (Delete g a ex w)) (ex_Namespace ex, ''delete'') =
     counters w (ex_Namespace ex, ''delete'') + 1"
  unfolding Delete_eq by simp

lemma ForceDelete_counter:
  "counters (snd (ForceDelete g a ex w)) (ex_Namespace ex, ''force_delete'') =
     counters w (ex_Namespace ex, ''force_delete'') + 1"
  unfolding ForceDelete_def Delete_eq by (simp add: Inc_def Info_def Let_def)

lemma Reconcile_other_counter:
  assumes "op \<noteq> ''reconcile''" and "op \<noteq> ''delete''"
  shows "counters (snd (Reconcile lib g a ex w)) (ns, op) = counters w (ns, op)"
proof (cases "gardenletFeatureGates a OpenTelemetryCollector = Some True")
  case True
  show ?thesis
    unfolding Reconcile_gate_on [OF True] using assms by (simp add: Inc_def Reconcile_body_counters)
next
  case False
  then have "gardenletFeatureGates a OpenTelemetryCollector = None \<or>
           gardenletFeatureGates a OpenTelemetryCollector = Some False"
    by (cases "gardenletFeatureGates a OpenTelemetryCollector") auto
  then show ?thesis
    unfolding Reconcile_gate_off [OF \<open>gardenletFeatureGates a OpenTelemetryCollector = None \<or>
           gardenletFeatureGates a OpenTelemetryCollector = Some False\<close>] Delete_eq
    using assms by (simp add: Info_def)
qed

lemma Restore_counter:
  "counters (snd (Restore lib g a ex w)) (ex_Namespace ex, ''restore'') =
     counters w (ex_Namespace ex, ''restore'') + 1"
  by (simp add: Restore_def split_beta Inc_def Reconcile_other_counter)

lemma Migrate_counter:
  "counters (snd (Migrate lib g a ex w)) (ex_Namespace ex, ''migrate'') =
     counters w (ex_Namespace ex, ''migrate'') + 1"
  by (simp add: Migrate_def split_beta Inc_def Reconcile_other_counter)

lemma Delete_result_independent_of_counters:
  "fst (Delete g a ex (w\<lparr>counters := cs\<rparr>)) = fst (Delete g a ex w)"
  unfolding Delete_eq by simp

lemma Reconcile_body_result_independent_of_counters:
  "fst (Reconcile_body lib g a ex n (w\<lparr>counters := cs\<rparr>)) = fst (Reconcile_body lib g a ex n w)"
  by (simp add: Reconcile_body_def Info_def Let_def split_beta split: sum.split option.split)

lemma Reconcile_result_independent_of_counters:
  "fst (Reconcile lib g a ex (w\<lparr>counters := cs\<rparr>)) = fst (Reconcile lib g a ex w)"
proof (cases "gardenletFeatureGates a OpenTelemetryCollector = Some True")
  case True
  show ?thesis
    unfolding Reconcile_gate_on [OF True] by (simp add: Reconcile_body_result_independent_of_counters)
next
  case False
  then have off: "gardenletFeatureGates a OpenTelemetryCollector = None \<or>
           gardenletFeatureGates a OpenTelemetryCollector = Some False"
    by (cases "gardenletFeatureGates a OpenTelemetryCollector") auto
  show ?thesis
    unfolding Reconcile_gate_off [OF off] Delete_eq by (simp add: Info_def)
qed

lemma ForceDelete_result_independent_of_counters:
  "fst (ForceDelete g a ex (w\<lparr>counters := cs\<rparr>)) = fst (ForceDelete g a ex w)"
  unfolding ForceDelete_def Delete_eq by (simp add: Info_def Let_def)

lemma Restore_result_independent_of_counters:
  "fst (Restore lib g a ex (w\<lparr>counters := cs\<rparr>)) = fst (Restore lib g a ex w)"
  by (simp add: Restore_def split_beta Reconcile_result_independent_of_counters)

lemma Migrate_result_independent_of_counters:
  "fst (Migrate lib g a ex (w\<lparr>counters := cs\<rparr>)) = fst (Migrate lib g a ex w)"
  by (simp add: Migrate_def split_beta Reconcile_result_independent_of_counters)

text \<open>
  Claim C5.  With the feature gate absent from the actuator's map, or present and false,
  \<open>Reconcile\<close> writes one line to the log and then is \<open>Delete\<close>: the same result, the same
  single call to remove the managed resource and no call to create it, the same seed cluster
  and the same counters as \<open>Delete\<close> on that resource.
\<close>

theorem C5_gate_off_is_delete:
  assumes "gardenletFeatureGates a OpenTelemetryCollector = None \<or>
           gardenletFeatureGates a OpenTelemetryCollector = Some False"
  shows "Reconcile lib g a ex w =
           Delete g a ex
             (Info ''gardenlet feature gate OpenTelemetryCollector is either missing or disabled'' [] w) \<and>
         fst (Reconcile lib g a ex w) = fst (Delete g a ex w) \<and>
         calls (snd (Reconcile lib g a ex w)) = calls (snd (Delete g a ex w)) \<and>
         calls (snd (Reconcile lib g a ex w)) =
           calls w @ [DeleteForSeed_call (ex_Namespace ex) managedResourceName] \<and>
         seed (snd (Reconcile lib g a ex w)) = seed (snd (Delete g a ex w)) \<and>
         counters (snd (Reconcile lib g a ex w)) = counters (snd (Delete g a ex w))"
  unfolding Reconcile_gate_off [OF assms] Delete_eq by (simp add: Info_def)

theorem C5_gate_off_is_delete_witness:
  "gardenletFeatureGates a_off OpenTelemetryCollector = None \<and>
   fst (Reconcile lib0 (g0 False None) a_off (ex0 (Some \<lparr>Raw = ''{otlphttp}''\<rparr>)) w0) =
     fst (Delete (g0 False None) a_off (ex0 (Some \<lparr>Raw = ''{otlphttp}''\<rparr>)) w0) \<and>
   calls (snd (Reconcile lib0 (g0 False None) a_off (ex0 (Some \<lparr>Raw = ''{otlphttp}''\<rparr>)) w0)) =
     [DeleteForSeed_call ''shoot--local--local'' ''external-otelcol'']"
proof -
  have h: "gardenletFeatureGates a_off OpenTelemetryCollector = None \<or>
           gardenletFeatureGates a_off OpenTelemetryCollector = Some False"
    by (simp add: a_off_def)
  note t = C5_gate_off_is_delete [OF h, of lib0 "g0 False None" "ex0 (Some \<lparr>Raw = ''{otlphttp}''\<rparr>)" w0]
  have r: "fst (Reconcile lib0 (g0 False None) a_off (ex0 (Some \<lparr>Raw = ''{otlphttp}''\<rparr>)) w0) =
     fst (Delete (g0 False None) a_off (ex0 (Some \<lparr>Raw = ''{otlphttp}''\<rparr>)) w0)"
    using t by (elim conjE)
  have c: "calls (snd (Reconcile lib0 (g0 False None) a_off (ex0 (Some \<lparr>Raw = ''{otlphttp}''\<rparr>)) w0)) =
     calls w0 @ [DeleteForSeed_call (ex_Namespace (ex0 (Some \<lparr>Raw = ''{otlphttp}''\<rparr>))) managedResourceName]"
    using t by (elim conjE)
  have g: "gardenletFeatureGates a_off OpenTelemetryCollector = None"
    by (simp add: a_off_def)
  show ?thesis
    unfolding r c using g by (simp add: w0_def ex0_def managedResourceName_def)
qed

text \<open>
  Claim C6.  With the feature gate on and the cluster read from the seed hibernated,
  \<open>Reconcile\<close> returns \<open>nil\<close>, makes no call to create or remove the managed resource and
  leaves the seed cluster as it was.
\<close>

theorem C6_hibernated_no_action:
  assumes "gardenletFeatureGates a OpenTelemetryCollector = Some True"
    and "GetCluster g (ex_Namespace ex) (seed w) = Inr c"
    and "HibernationIsEnabled g c"
  shows "fst (Reconcile lib g a ex w) = None \<and>
         calls (snd (Reconcile lib g a ex w)) = calls w \<and>
         seed (snd (Reconcile lib g a ex w)) = seed w"
  unfolding Reconcile_gate_on [OF assms(1)] Reconcile_body_hibernated [OF assms(2,3)]
  by (simp add: Inc_def Info_def)

theorem C6_hibernated_no_action_witness:
  "gardenletFeatureGates a_on OpenTelemetryCollector = Some True \<and>
   GetCluster (g0 True None) (ex_Namespace (ex0 (Some \<lparr>Raw = ''{otlphttp}''\<rparr>)))
     (seed (w0\<lparr>seed := [(''shoot--local--local'', ''external-otelcol'')]\<rparr>)) = Inr True \<and>
   HibernationIsEnabled (g0 True None) True \<and>
   fst (Reconcile lib0 (g0 True None) a_on (ex0 (Some \<lparr>Raw = ''{otlphttp}''\<rparr>))
          (w0\<lparr>seed := [(''shoot--local--local'', ''external-otelcol'')]\<rparr>)) = None \<and>
   calls (snd (Reconcile lib0 (g0 True None) a_on (ex0 (Some \<lparr>Raw = ''{otlphttp}''\<rparr>))
          (w0\<lparr>seed := [(''shoot--local--local'', ''external-otelcol'')]\<rparr>))) = [] \<and>
   seed (snd (Reconcile lib0 (g0 True None) a_on (ex0 (Some \<lparr>Raw = ''{otlphttp}''\<rparr>))
          (w0\<lparr>seed := [(''shoot--local--local'', ''external-otelcol'')]\<rparr>))) =
     [(''shoot--local--local'', ''external-otelcol'')]"
proof -
  have h1: "gardenletFeatureGates a_on OpenTelemetryCollector = Some True"
    by (simp add: a_on_def)
  have h2: "GetCluster (g0 True None) (ex_Namespace (ex0 (Some \<lparr>Raw = ''{otlphttp}''\<rparr>)))
     (seed (w0\<lparr>seed := [(''shoot--local--local'', ''external-otelcol'')]\<rparr>)) = Inr True"
    by (simp add: g0_def)
  have h3: "HibernationIsEnabled (g0 True None) True"
    by (simp add: g0_def)
  from C6_hibernated_no_action [OF h1 h2 h3, of lib0] h1 h2 h3
  show ?thesis by (simp add: w0_def)
qed



text \<open>
  Claim C2 fails on the code, for \<open>Reconcile\<close>.  With the feature gate absent or false,
  \<open>Reconcile\<close> returns through \<open>Delete\<close> before its own deferred increment is registered:
  the counter for (cluster, "reconcile") keeps its value and the one for (cluster, "delete") is
  incremented.  The lemmas \<open>Delete_counter\<close>, \<open>ForceDelete_counter\<close>, \<open>Restore_counter\<close>,
  \<open>Migrate_counter\<close> and \<open>Reconcile_gate_on_counter\<close> show the increments that happen on
  every path, and the lemmas named \<open>result_independent_of_counters\<close> that no counter
  changes a trigger's result.
\<close>

theorem C2_reconcile_gate_off_counter:
  assumes "gardenletFeatureGates a OpenTelemetryCollector = None \<or>
           gardenletFeatureGates a OpenTelemetryCollector = Some False"
  shows "counters (snd (Reconcile lib g a ex w)) (ex_Namespace ex, ''reconcile'') =
           counters w (ex_Namespace ex, ''reconcile'') \<and>
         counters (snd (Reconcile lib g a ex w)) (ex_Namespace ex, ''delete'') =
           counters w (ex_Namespace ex, ''delete'') + 1"
  unfolding Reconcile_gate_off [OF assms] Delete_eq by (simp add: Info_def)

theorem C2_reconcile_gate_off_counter_witness:
  "gardenletFeatureGates a_off OpenTelemetryCollector = None \<and>
   counters (snd (Reconcile lib0 (g0 False None) a_off (ex0 None) w0))
     (''shoot--local--local'', ''reconcile'') = 0 \<and>
   counters (snd (Reconcile lib0 (g0 False None) a_off (ex0 None) w0))
     (''shoot--local--local'', ''delete'') = 1"
proof -
  have g: "gardenletFeatureGates a_off OpenTelemetryCollector = None"
    by (simp add: a_off_def)
  then have h: "gardenletFeatureGates a_off OpenTelemetryCollector = None \<or>
           gardenletFeatureGates a_off OpenTelemetryCollector = Some False"
    by simp
  have n: "ex_Namespace (ex0 None) = ''shoot--local--local''"
    by (simp add: ex0_def)
  have c: "counters w0 = (\<lambda>k. 0)"
    by (simp add: w0_def)
  from C2_reconcile_gate_off_counter [OF h, of lib0 "g0 False None" "ex0 None" w0] g
  show ?thesis unfolding n c by simp
qed

end
